theory Spec2Isabelle
  imports Main
begin

section \<open>Access gate: package authmiddleware\<close>

text \<open>
  The middleware looks at three things of a request: its method, the path of its URL and
  its header. A Go header is a map from (canonical) field names to the list of values of
  that field; \<open>Header.Get\<close> yields the first value, and the empty string when the field
  has no value. Both names the middleware asks for are already in canonical form.
\<close>

record Request =
  Method :: string
  Path :: string
  Header :: "string \<rightharpoonup> string list"

definition Header_Get :: "(string \<rightharpoonup> string list) \<Rightarrow> string \<Rightarrow> string" where
  "Header_Get h key = (case h key of None \<Rightarrow> [] | Some [] \<Rightarrow> [] | Some (v # _) \<Rightarrow> v)"

text \<open>
  \<open>GetAccessToken\<close> is a function value of the configuration, called once for each
  request that reaches the token check.
\<close>

record Config =
  GetAccessToken :: "unit \<Rightarrow> string"
  WhitelistPaths :: "string list"
  RequireTunnel :: bool

text \<open>
  What the handler does with a request: it hands it to the next handler unchanged, or it
  ends it with \<open>http.Error(w, message, status)\<close>.
\<close>

datatype Outcome = Next | http_Error string int

definition StatusForbidden :: int where "StatusForbidden = 403"
definition StatusUnauthorized :: int where "StatusUnauthorized = 401"
definition StatusInternalServerError :: int where "StatusInternalServerError = 500"

text \<open>\<open>strings.HasPrefix(s, p)\<close>: \<open>len(s) >= len(p) && s[:len(p)] == p\<close>.\<close>

definition HasPrefix :: "string \<Rightarrow> string \<Rightarrow> bool" where
  "HasPrefix s p = (length p \<le> length s \<and> take (length p) s = p)"

text \<open>
  \<open>strings.SplitN(s, sep, 2)\<close> for a separator of one character: the text before the
  first separator and all the text after it, or \<open>s\<close> alone when it has no separator.
\<close>

definition SplitN2 :: "string \<Rightarrow> char \<Rightarrow> string list" where
  "SplitN2 s sep =
     (if sep \<in> set s
      then [takeWhile (\<lambda>c. c \<noteq> sep) s, tl (dropWhile (\<lambda>c. c \<noteq> sep) s)]
      else [s])"

text \<open>The loop of \<open>isWhitelisted\<close> over the configured paths, in their order.\<close>

fun isWhitelisted_loop :: "string \<Rightarrow> string list \<Rightarrow> bool" where
  "isWhitelisted_loop path [] = False"
| "isWhitelisted_loop path (whitelistPath # rest) =
     (if path = whitelistPath \<or> HasPrefix path whitelistPath then True
      else isWhitelisted_loop path rest)"

definition isWhitelisted :: "Config \<Rightarrow> string \<Rightarrow> bool" where
  "isWhitelisted config path = isWhitelisted_loop path (WhitelistPaths config)"

definition isFromCloudflare :: "Request \<Rightarrow> bool" where
  "isFromCloudflare r = (Header_Get (Header r) ''Cloudflare-Cdn-Loop'' \<noteq> [])"

definition Middleware :: "Config \<Rightarrow> Request \<Rightarrow> Outcome" where
  "Middleware config r =
     (if Method r = ''OPTIONS'' then Next
      else if isWhitelisted config (Path r) then Next
      else if RequireTunnel config \<and> \<not> isFromCloudflare r
        then http_Error ''Access denied: not from Cloudflare Tunnel'' StatusForbidden
      else
        let authHeader = Header_Get (Header r) ''Authorization'' in
        if authHeader = [] then http_Error ''Authorization header required'' StatusUnauthorized
        else
          let parts = SplitN2 authHeader (CHR '' '') in
          if length parts \<noteq> 2 \<or> parts ! 0 \<noteq> ''Bearer''
            then http_Error ''Invalid authorization header format'' StatusUnauthorized
          else
            let token = parts ! 1;
                expectedToken = GetAccessToken config ()
            in
              if expectedToken = []
                then http_Error ''Server authentication not initialized'' StatusInternalServerError
              else if token \<noteq> expectedToken
                then http_Error ''Invalid access token'' StatusUnauthorized
              else Next)"

text \<open>
  The form of an authorization header in the words of the specification: cut at every
  space, the header has exactly two parts and the first one is the word \<open>Bearer\<close>.
  \<open>Split_all\<close> is \<open>strings.Split\<close> for a separator of one character.
\<close>

fun Split_all :: "string \<Rightarrow> char \<Rightarrow> string list" where
  "Split_all [] sep = [[]]"
| "Split_all (c # cs) sep =
     (if c = sep then [] # Split_all cs sep
      else (case Split_all cs sep of [] \<Rightarrow> [[c]] | p # ps \<Rightarrow> (c # p) # ps))"

definition spec_bearer_form :: "string \<Rightarrow> bool" where
  "spec_bearer_form h =
     (case Split_all h (CHR '' '') of [a, b] \<Rightarrow> a = ''Bearer'' | _ \<Rightarrow> False)"

text \<open>Requests and configurations used to run the gate.\<close>

definition request :: "string \<Rightarrow> string \<Rightarrow> (string \<times> string) list \<Rightarrow> Request" where
  "request m p hs =
     \<lparr>Method = m, Path = p, Header = map_of (map (\<lambda>(k, v). (k, [v])) hs)\<rparr>"

definition gate_config :: "string \<Rightarrow> string list \<Rightarrow> bool \<Rightarrow> Config" where
  "gate_config tok wl tunnel =
     \<lparr>GetAccessToken = (\<lambda>_. tok), WhitelistPaths = wl, RequireTunnel = tunnel\<rparr>"

text \<open>
  Two conditions on a request, stated without the code's helpers. A path is whitelisted
  when some configured entry is the path itself or a prefix of it. A request is past the
  origin check when it is not a pre-flight request, its path is not whitelisted, and the
  marker header of the tunnel is there whenever the configuration asks for the tunnel.
\<close>

definition path_whitelisted :: "Config \<Rightarrow> Request \<Rightarrow> bool" where
  "path_whitelisted config r =
     (\<exists>w \<in> set (WhitelistPaths config). \<exists>rest. Path r = w @ rest)"

definition past_origin_check :: "Config \<Rightarrow> Request \<Rightarrow> bool" where
  "past_origin_check config r =
     (Method r \<noteq> ''OPTIONS'' \<and> \<not> path_whitelisted config r \<and>
      (RequireTunnel config \<longrightarrow> Header_Get (Header r) ''Cloudflare-Cdn-Loop'' \<noteq> []))"

section \<open>Error values\<close>

text \<open>
  A Go error is a value with a chain behind it: \<open>fmt.Errorf\<close> with the verb \<open>%w\<close>
  wraps its operand, and an \<open>HTTPError\<close> unwraps to its field \<open>Err\<close>, which may be
  nil. The nine package variables made by \<open>errors.New\<close> are constants of the type.
  \<open>Errorf\<close> keeps the format string, the operands other than the wrapped one as they
  print, and the wrapped error. \<open>LibraryError\<close> is an error made by the standard library
  (transport, JSON, RSA, base64), known by its text only. \<open>ForeignError\<close> is an error
  of any other type, as the transport of a caller's \<open>http.Client\<close> may return one: it
  is known by its text, by the targets that \<open>errors.Is\<close> finds in it (in its chain, in
  the errors it joins, or by its own \<open>Is\<close> method), and by the \<open>HTTPError\<close> that
  \<open>errors.As\<close> finds in it, if there is one.
\<close>

datatype fmtarg = ArgS string | ArgD int

datatype error =
    ErrUnauthorized
  | ErrBadRequest
  | ErrNotFound
  | ErrInternalServer
  | ErrChallengeExpired
  | ErrInvalidSignature
  | ErrInvalidConfig
  | ErrInvalidPrivateKey
  | ErrNetworkError
  | Errorf string "fmtarg list" "error option"
  | HTTPError int string "error option"
  | LibraryError string
  | ForeignError string "error list" "(int \<times> string \<times> error option) option"

text \<open>\<open>NewHTTPError(statusCode, message, err)\<close>.\<close>

definition NewHTTPError :: "int \<Rightarrow> string \<Rightarrow> error option \<Rightarrow> error" where
  "NewHTTPError statusCode message err = HTTPError statusCode message err"

text \<open>
  \<open>errors.Is(err, target)\<close> walks the chain of \<open>err\<close> and compares each link with the
  target. The code asks only for targets that are package variables.
\<close>

fun errors_Is :: "error \<Rightarrow> error \<Rightarrow> bool" where
  "errors_Is (Errorf f args (Some w)) target =
     (Errorf f args (Some w) = target \<or> errors_Is w target)"
| "errors_Is (HTTPError s m (Some w)) target =
     (HTTPError s m (Some w) = target \<or> errors_Is w target)"
| "errors_Is (ForeignError text matches found) target =
     (ForeignError text matches found = target \<or> target \<in> set matches)"
| "errors_Is e target = (e = target)"

text \<open>
  \<open>errors.As(err, &httpErr)\<close> for a target of type \<open>*HTTPError\<close>: the first link of the
  chain that is an \<open>HTTPError\<close>, as its three fields.
\<close>

fun errors_As_HTTPError :: "error \<Rightarrow> (int \<times> string \<times> error option) option" where
  "errors_As_HTTPError (HTTPError s m w) = Some (s, m, w)"
| "errors_As_HTTPError (Errorf f args (Some w)) = errors_As_HTTPError w"
| "errors_As_HTTPError (ForeignError text matches found) = found"
| "errors_As_HTTPError e = None"

section \<open>Signature engine: package crypto\<close>

text \<open>
  An RSA public key is a modulus and an exponent; a private key is a public key with a
  private exponent and the prime factors. A key handed over as a pointer may be nil.
\<close>

record rsa_PublicKey =
  N :: int
  E :: int

record rsa_PrivateKey = rsa_PublicKey +
  D :: int
  Primes :: "int list"

text \<open>\<open>&privateKey.PublicKey\<close>: the public half of a private key.\<close>

definition PublicKey_of :: "rsa_PrivateKey \<Rightarrow> rsa_PublicKey" where
  "PublicKey_of k = \<lparr>N = N k, E = E k\<rparr>"

text \<open>
  The functions of the standard library that the package calls are parameters of the
  model: the digest, the two RSA operations of PKCS #1 v1.5 with SHA-256, and the two
  directions of the standard base64 encoding. Signing with PKCS #1 v1.5 uses its random
  source for blinding only, so the signature is a function of the key and the digest.
  Byte slices are strings. An error of the
  library is given by its text (on the left of a sum), and the model makes a
  \<open>LibraryError\<close> of it; a function that returns an error alone returns \<open>None\<close>
  for nil.
\<close>

record crypto_lib =
  sha256_Sum256 :: "string \<Rightarrow> string"
  rsa_SignPKCS1v15 :: "rsa_PrivateKey \<Rightarrow> string \<Rightarrow> string + string"
  rsa_VerifyPKCS1v15 :: "rsa_PublicKey \<Rightarrow> string \<Rightarrow> string \<Rightarrow> string option"
  base64_EncodeToString :: "string \<Rightarrow> string"
  base64_DecodeString :: "string \<Rightarrow> string + string"

definition SignChallenge :: "crypto_lib \<Rightarrow> rsa_PrivateKey option \<Rightarrow> string \<Rightarrow> error + string" where
  "SignChallenge L privateKey challenge =
     (case privateKey of
        None \<Rightarrow> Inl (Errorf ''private key is nil'' [] None)
      | Some key \<Rightarrow>
          if challenge = [] then Inl (Errorf ''challenge is empty'' [] None)
          else
            let hashed = sha256_Sum256 L challenge in
            (case rsa_SignPKCS1v15 L key hashed of
               Inl err \<Rightarrow> Inl (Errorf ''failed to sign challenge: %w'' [] (Some (LibraryError err)))
             | Inr signature \<Rightarrow> Inr (base64_EncodeToString L signature)))"

definition VerifySignature :: "crypto_lib \<Rightarrow> rsa_PublicKey option \<Rightarrow> string \<Rightarrow> string \<Rightarrow> error option" where
  "VerifySignature L publicKey challenge signatureBase64 =
     (case publicKey of
        None \<Rightarrow> Some (Errorf ''public key is nil'' [] None)
      | Some key \<Rightarrow>
          if challenge = [] then Some (Errorf ''challenge is empty'' [] None)
          else if signatureBase64 = [] then Some (Errorf ''signature is empty'' [] None)
          else
            (case base64_DecodeString L signatureBase64 of
               Inl err \<Rightarrow> Some (Errorf ''failed to decode signature: %w'' [] (Some (LibraryError err)))
             | Inr signature \<Rightarrow>
                 let hashed = sha256_Sum256 L challenge in
                 (case rsa_VerifyPKCS1v15 L key hashed signature of
                    Some err \<Rightarrow> Some (Errorf ''signature verification failed: %w'' [] (Some (LibraryError err)))
                  | None \<Rightarrow> None)))"

text \<open>
  What the documentation of the library promises, as conditions on the parameters. A key
  pair is valid when signing the digest of a message with the private key succeeds with a
  signature that is not empty, that the public key accepts for this digest, and that it
  accepts for no other digest of a message (PKCS #1 v1.5 verification recomputes the
  padded digest and compares). The
  encoding round-trips when decoding an encoded slice gives the slice back, and the
  encoding of a slice that is not empty is not empty.
\<close>

definition valid_key_pair :: "crypto_lib \<Rightarrow> rsa_PrivateKey \<Rightarrow> rsa_PublicKey \<Rightarrow> bool" where
  "valid_key_pair L priv pub =
     (\<forall>m. \<exists>sg. rsa_SignPKCS1v15 L priv (sha256_Sum256 L m) = Inr sg \<and> sg \<noteq> [] \<and>
        rsa_VerifyPKCS1v15 L pub (sha256_Sum256 L m) sg = None \<and>
        (\<forall>m'. sha256_Sum256 L m' \<noteq> sha256_Sum256 L m \<longrightarrow>
           rsa_VerifyPKCS1v15 L pub (sha256_Sum256 L m') sg \<noteq> None))"

definition base64_round_trip :: "crypto_lib \<Rightarrow> bool" where
  "base64_round_trip L =
     (\<forall>b. base64_DecodeString L (base64_EncodeToString L b) = Inr b \<and>
          (b \<noteq> [] \<longrightarrow> base64_EncodeToString L b \<noteq> []))"

section \<open>Protocol client: package authclient\<close>

subsection \<open>Types of the wire protocol and of the configuration\<close>

text \<open>
  Durations are counts of nanoseconds, as \<open>time.Duration\<close> is. A pointer to an
  \<open>http.Client\<close> is an address in a heap of such objects, or nil. Of an
  \<open>http.Client\<close> the model keeps its four fields; the first three are known by a name
  only.
\<close>

definition Second :: int where "Second = 1000000000"

record http_Client =
  Transport :: "string option"
  CheckRedirect :: "string option"
  Jar :: "string option"
  Timeout :: int

type_synonym heap = "http_Client list"

record ClientConfig =
  BaseURL :: string
  ClientID :: string
  PrivateKey :: "rsa_PrivateKey option"
  HTTPClient :: "nat option"
  Timeout :: int
  SecretKeys :: "string list"
  RepoUrl :: string
  GrpcEndpoint :: string
  IncludeRepoList :: bool
  TunnelUrl :: string

record ChallengeResponse =
  Challenge :: string
  ExpiresAt :: int

record VerifyRequest =
  ClientID :: string
  Challenge :: string
  Signature :: string
  RepoUrl :: string
  GrpcEndpoint :: string
  IncludeRepoList :: bool
  TunnelUrl :: string

record VerifyResponse =
  Success :: bool
  Token :: string
  SecretData :: "string \<rightharpoonup> string"
  RepoList :: "string list"
  Error :: string

record ErrorResponse =
  Error :: string
  Success :: bool

record Client =
  baseURL :: string
  clientID :: string
  privateKey :: "rsa_PrivateKey option"
  httpClient :: nat
  timeout :: int
  maxRetries :: int
  retryBackoff :: int
  secretKeys :: "string list"
  repoUrl :: string
  grpcEndpoint :: string

subsection \<open>Requests, the verifier and the trace of effects\<close>

text \<open>
  A request body is the Go value handed to \<open>json.Marshal\<close>: the one-entry map of the
  challenge request or the struct of the verify request. Marshalling these values cannot
  fail (they hold strings and a boolean only), so the branch of the code for a failed
  \<open>json.Marshal\<close> is never taken and has no counterpart here.
\<close>

datatype http_body = JSON_map "(string \<times> string) list" | JSON_VerifyRequest VerifyRequest

record http_Request =
  req_method :: string
  req_url :: string
  req_header :: "(string \<times> string) list"
  req_body :: http_body

text \<open>
  What \<open>httpClient.Do\<close> and \<open>io.ReadAll\<close> give for a request that was sent: a
  transport error, a response whose body could not be read, or a status code with a body.
  The error of \<open>httpClient.Do\<close> is printed into the client's error with \<open>%v\<close>, so
  its text is all that matters. The error of \<open>io.ReadAll\<close> is wrapped with \<open>%w\<close> and
  comes from the body reader of the transport, which the caller may have supplied: it is
  any error value, with whatever chain it has.
\<close>

datatype http_result =
    DoError string
  | ReadError int error
  | Response int string

text \<open>
  The effects of the client are the requests it sends and the pauses it makes, in their
  order. The verifier is any function of the history and the request.
\<close>

datatype event = Sent http_Request http_result | Slept int

type_synonym verifier = "event list \<Rightarrow> http_Request \<Rightarrow> http_result"

text \<open>
  The library functions the client calls besides those of the signature engine:
  \<open>json.Unmarshal\<close> into each of the three response types, and the check of
  \<open>http.NewRequest\<close> on the method and the URL. Their errors are texts, as for the
  signature engine: the decoder and \<open>http.NewRequest\<close> make their errors themselves,
  so no error of this package is in their chains.
\<close>

record stdlib =
  crypto :: crypto_lib
  json_Unmarshal_ChallengeResponse :: "string \<Rightarrow> string + ChallengeResponse"
  json_Unmarshal_VerifyResponse :: "string \<Rightarrow> string + VerifyResponse"
  json_Unmarshal_ErrorResponse :: "string \<Rightarrow> string + ErrorResponse"
  http_NewRequest_error :: "string \<Rightarrow> string \<Rightarrow> string option"

subsection \<open>Construction\<close>

text \<open>\<open>strings.HasSuffix\<close> and \<open>strings.TrimSuffix\<close>.\<close>

definition HasSuffix :: "string \<Rightarrow> string \<Rightarrow> bool" where
  "HasSuffix s suffix =
     (length suffix \<le> length s \<and> drop (length s - length suffix) s = suffix)"

definition TrimSuffix :: "string \<Rightarrow> string \<Rightarrow> string" where
  "TrimSuffix s suffix =
     (if HasSuffix s suffix then take (length s - length suffix) s else s)"

text \<open>
  \<open>NewClient\<close> reads and writes the heap of \<open>http.Client\<close> objects: without a client
  in the configuration it allocates a fresh zero-valued one; in both cases it assigns the
  \<open>Timeout\<close> field of the object it holds. The warning for an endpoint that is neither
  \<open>https://\<close> nor \<open>http://localhost\<close> is printed to \<open>io.Discard\<close>, so it has no
  effect and both branches of that test continue alike.
\<close>

definition NewClient :: "ClientConfig \<Rightarrow> heap \<Rightarrow> (error + Client) \<times> heap" where
  "NewClient config h =
     (if BaseURL config = []
        then (Inl (Errorf ''%w: baseURL is required'' [] (Some ErrInvalidConfig)), h)
      else if ClientConfig.ClientID config = []
        then (Inl (Errorf ''%w: clientID is required'' [] (Some ErrInvalidConfig)), h)
      else if PrivateKey config = None
        then (Inl (Errorf ''%w: privateKey is required'' [] (Some ErrInvalidConfig)), h)
      else
        let (httpClient, h1) =
              (case HTTPClient config of
                 None \<Rightarrow> (length h,
                   h @ [\<lparr>Transport = None, CheckRedirect = None, Jar = None,
                         http_Client.Timeout = 0\<rparr>])
               | Some a \<Rightarrow> (a, h));
            timeout = (if ClientConfig.Timeout config = 0 then 30 * Second
                       else ClientConfig.Timeout config);
            h2 = h1[httpClient := (h1 ! httpClient)\<lparr>http_Client.Timeout := timeout\<rparr>];
            warn = (\<not> HasPrefix (BaseURL config) ''https://'' \<and>
                    \<not> HasPrefix (BaseURL config) ''http://localhost'')
        in (Inr \<lparr>baseURL = TrimSuffix (BaseURL config) ''/'',
                 clientID = ClientConfig.ClientID config,
                 privateKey = PrivateKey config,
                 httpClient = httpClient,
                 timeout = timeout,
                 maxRetries = 0,
                 retryBackoff = 2 * Second,
                 secretKeys = SecretKeys config,
                 repoUrl = ClientConfig.RepoUrl config,
                 grpcEndpoint = ClientConfig.GrpcEndpoint config\<rparr>, h2))"

text \<open>
  The two conditions of the constructor, for the statements below: a configuration is
  valid when its endpoint and its client identifier are not empty and it has a key; the
  effective timeout is the configured one, or thirty seconds when that is zero.
\<close>

definition valid_config :: "ClientConfig \<Rightarrow> bool" where
  "valid_config config =
     (BaseURL config \<noteq> [] \<and> ClientConfig.ClientID config \<noteq> [] \<and> PrivateKey config \<noteq> None)"

definition effective_timeout :: "ClientConfig \<Rightarrow> int" where
  "effective_timeout config =
     (if ClientConfig.Timeout config = 0 then 30000000000 else ClientConfig.Timeout config)"

definition SetRetry :: "Client \<Rightarrow> int \<Rightarrow> int \<Rightarrow> Client" where
  "SetRetry c maxRetries' backoff = c\<lparr>maxRetries := maxRetries', retryBackoff := backoff\<rparr>"

subsection \<open>Errors of the protocol steps\<close>

definition handleHTTPError :: "stdlib \<Rightarrow> int \<Rightarrow> string \<Rightarrow> error" where
  "handleHTTPError L statusCode body =
     (case json_Unmarshal_ErrorResponse L body of
        Inl err \<Rightarrow> NewHTTPError statusCode body None
      | Inr errResp \<Rightarrow>
          let baseErr =
                (if statusCode = 400 then ErrBadRequest
                 else if statusCode = 401 then ErrUnauthorized
                 else if statusCode = 404 then ErrNotFound
                 else if statusCode = 500 then ErrInternalServer
                 else Errorf ''HTTP error %d'' [ArgD statusCode] None)
          in NewHTTPError statusCode (ErrorResponse.Error errResp) (Some baseErr))"

definition isRetryable :: "error \<Rightarrow> bool" where
  "isRetryable err =
     (if errors_Is err ErrNetworkError then True
      else
        (case errors_As_HTTPError err of
           Some (StatusCode, Message, Err) \<Rightarrow>
             if StatusCode \<ge> 500 \<and> StatusCode < 600 then True
             else if StatusCode = 429 then True
             else False
         | None \<Rightarrow> False))"

subsection \<open>The three steps\<close>

text \<open>
  Each step that talks to the verifier takes the trace so far and returns it extended by
  the request it sent, if it sent one.
\<close>

definition RequestChallenge ::
  "stdlib \<Rightarrow> verifier \<Rightarrow> Client \<Rightarrow> event list \<Rightarrow> (error + ChallengeResponse) \<times> event list" where
  "RequestChallenge L V c tr =
     (let url = baseURL c @ ''/challenge'';
          reqBody = [(''clientId'', clientID c)]
      in
        case http_NewRequest_error L ''POST'' url of
          Some err \<Rightarrow> (Inl (Errorf ''failed to create request: %w'' [] (Some (LibraryError err))), tr)
        | None \<Rightarrow>
            let req = \<lparr>req_method = ''POST'', req_url = url,
                       req_header = [(''Content-Type'', ''application/json'')],
                       req_body = JSON_map reqBody\<rparr>;
                res = V tr req;
                tr' = tr @ [Sent req res]
            in
              (case res of
                 DoError msg \<Rightarrow>
                   (Inl (Errorf ''%w: %v'' [ArgS msg] (Some ErrNetworkError)), tr')
               | ReadError status err \<Rightarrow>
                   (Inl (Errorf ''failed to read response: %w'' [] (Some err)), tr')
               | Response status body \<Rightarrow>
                   if status \<noteq> 200 then (Inl (handleHTTPError L status body), tr')
                   else
                     (case json_Unmarshal_ChallengeResponse L body of
                        Inl err \<Rightarrow>
                          (Inl (Errorf ''failed to parse response: %w'' [] (Some (LibraryError err))), tr')
                      | Inr challengeResp \<Rightarrow> (Inr challengeResp, tr'))))"

definition signChallenge :: "stdlib \<Rightarrow> Client \<Rightarrow> string \<Rightarrow> error + string" where
  "signChallenge L c challenge =
     (if privateKey c = None then Inl ErrInvalidPrivateKey
      else
        (case SignChallenge (crypto L) (privateKey c) challenge of
           Inl err \<Rightarrow> Inl (Errorf ''failed to sign challenge: %w'' [] (Some err))
         | Inr signature \<Rightarrow> Inr signature))"

text \<open>
  The loop over the configured secret keys that fills \<open>filteredData\<close>, starting from
  the empty map.
\<close>

fun filter_loop ::
  "(string \<rightharpoonup> string) \<Rightarrow> string list \<Rightarrow> (string \<rightharpoonup> string) \<Rightarrow> (string \<rightharpoonup> string)" where
  "filter_loop secretData [] filteredData = filteredData"
| "filter_loop secretData (key # keys) filteredData =
     (case secretData key of
        Some val \<Rightarrow> filter_loop secretData keys (filteredData(key \<mapsto> val))
      | None \<Rightarrow> filter_loop secretData keys filteredData)"

definition Client_VerifySignature ::
  "stdlib \<Rightarrow> verifier \<Rightarrow> Client \<Rightarrow> string \<Rightarrow> string \<Rightarrow> event list
     \<Rightarrow> (error + VerifyResponse) \<times> event list" where
  "Client_VerifySignature L V c challenge signature tr =
     (let url = baseURL c @ ''/verify'';
          reqBody = \<lparr>VerifyRequest.ClientID = clientID c,
                     VerifyRequest.Challenge = challenge,
                     Signature = signature,
                     VerifyRequest.RepoUrl = repoUrl c,
                     VerifyRequest.GrpcEndpoint = grpcEndpoint c,
                     VerifyRequest.IncludeRepoList = False,
                     VerifyRequest.TunnelUrl = []\<rparr>
      in
        case http_NewRequest_error L ''POST'' url of
          Some err \<Rightarrow> (Inl (Errorf ''failed to create request: %w'' [] (Some (LibraryError err))), tr)
        | None \<Rightarrow>
            let req = \<lparr>req_method = ''POST'', req_url = url,
                       req_header = [(''Content-Type'', ''application/json'')],
                       req_body = JSON_VerifyRequest reqBody\<rparr>;
                res = V tr req;
                tr' = tr @ [Sent req res]
            in
              (case res of
                 DoError msg \<Rightarrow>
                   (Inl (Errorf ''%w: %v'' [ArgS msg] (Some ErrNetworkError)), tr')
               | ReadError status err \<Rightarrow>
                   (Inl (Errorf ''failed to read response: %w'' [] (Some err)), tr')
               | Response status body \<Rightarrow>
                   if status \<noteq> 200 then (Inl (handleHTTPError L status body), tr')
                   else
                     (case json_Unmarshal_VerifyResponse L body of
                        Inl err \<Rightarrow>
                          (Inl (Errorf ''failed to parse response: %w'' [] (Some (LibraryError err))), tr')
                      | Inr verifyResp \<Rightarrow>
                          if \<not> VerifyResponse.Success verifyResp
                            then (Inl (Errorf ''%w: %s''
                                   [ArgS (VerifyResponse.Error verifyResp)]
                                   (Some ErrUnauthorized)), tr')
                          else if length (secretKeys c) > 0
                            then (Inr (verifyResp\<lparr>SecretData :=
                                    filter_loop (SecretData verifyResp) (secretKeys c)
                                      Map.empty\<rparr>), tr')
                          else (Inr verifyResp, tr'))))"

subsection \<open>Authentication with retries\<close>

text \<open>
  \<open>authenticateWithRetry\<close> calls itself with one retry less after a pause; the number of
  retries left is a Go \<open>int\<close> and may be negative, in which case nothing is retried.
\<close>

function authenticateWithRetry ::
  "stdlib \<Rightarrow> verifier \<Rightarrow> Client \<Rightarrow> int \<Rightarrow> event list \<Rightarrow> (error + VerifyResponse) \<times> event list" where
  "authenticateWithRetry L V c retriesLeft tr =
     (case RequestChallenge L V c tr of
        (Inl err, tr1) \<Rightarrow>
          if retriesLeft > 0 \<and> isRetryable err
            then authenticateWithRetry L V c (retriesLeft - 1) (tr1 @ [Slept (retryBackoff c)])
          else (Inl (Errorf ''failed to request challenge: %w'' [] (Some err)), tr1)
      | (Inr challengeResp, tr1) \<Rightarrow>
          (case signChallenge L c (ChallengeResponse.Challenge challengeResp) of
             Inl err \<Rightarrow> (Inl (Errorf ''failed to sign challenge: %w'' [] (Some err)), tr1)
           | Inr signature \<Rightarrow>
               (case Client_VerifySignature L V c
                       (ChallengeResponse.Challenge challengeResp) signature tr1 of
                  (Inl err, tr2) \<Rightarrow>
                    if retriesLeft > 0 \<and> isRetryable err
                      then authenticateWithRetry L V c (retriesLeft - 1)
                             (tr2 @ [Slept (retryBackoff c)])
                    else (Inl (Errorf ''failed to verify signature: %w'' [] (Some err)), tr2)
                | (Inr verifyResp, tr2) \<Rightarrow> (Inr verifyResp, tr2))))"
  by pat_completeness auto
termination
  by (relation "measure (\<lambda>(L, V, c, retriesLeft, tr). nat retriesLeft)") auto

declare authenticateWithRetry.simps [simp del]

definition Authenticate ::
  "stdlib \<Rightarrow> verifier \<Rightarrow> Client \<Rightarrow> event list \<Rightarrow> (error + VerifyResponse) \<times> event list" where
  "Authenticate L V c tr = authenticateWithRetry L V c (maxRetries c) tr"

subsection \<open>Vocabulary for statements about traces\<close>

text \<open>
  The request of each step, as the code builds it from the client and the arguments. The
  verify request never sets \<open>IncludeRepoList\<close> or \<open>TunnelUrl\<close>: the struct literal of
  the code names five fields, and a \<open>Client\<close> has no field to take them from.
\<close>

definition challenge_request :: "Client \<Rightarrow> http_Request" where
  "challenge_request c =
     \<lparr>req_method = ''POST'', req_url = baseURL c @ ''/challenge'',
      req_header = [(''Content-Type'', ''application/json'')],
      req_body = JSON_map [(''clientId'', clientID c)]\<rparr>"

definition verify_request :: "Client \<Rightarrow> string \<Rightarrow> string \<Rightarrow> http_Request" where
  "verify_request c challenge signature =
     \<lparr>req_method = ''POST'', req_url = baseURL c @ ''/verify'',
      req_header = [(''Content-Type'', ''application/json'')],
      req_body = JSON_VerifyRequest
        \<lparr>VerifyRequest.ClientID = clientID c,
         VerifyRequest.Challenge = challenge,
         Signature = signature,
         VerifyRequest.RepoUrl = repoUrl c,
         VerifyRequest.GrpcEndpoint = grpcEndpoint c,
         VerifyRequest.IncludeRepoList = False,
         VerifyRequest.TunnelUrl = []\<rparr>\<rparr>"

text \<open>
  A result is retryable when it is a transport error, or a response with a status from
  500 to 599 or the status 429, or a failed body read whose error has in its chain the
  network error or an \<open>HTTPError\<close> with such a status. A verify result succeeded when
  it is a response with status 200 whose body decodes to a response with \<open>success\<close>
  true.
\<close>

definition retryable_result :: "http_result \<Rightarrow> bool" where
  "retryable_result res =
     (case res of
        DoError msg \<Rightarrow> True
      | ReadError status err \<Rightarrow>
          errors_Is err ErrNetworkError \<or>
          (case errors_As_HTTPError err of
             Some (s, m, w) \<Rightarrow> (500 \<le> s \<and> s \<le> 599) \<or> s = 429
           | None \<Rightarrow> False)
      | Response status body \<Rightarrow> (500 \<le> status \<and> status \<le> 599) \<or> status = 429)"

definition verify_succeeded :: "stdlib \<Rightarrow> http_result \<Rightarrow> bool" where
  "verify_succeeded L res =
     (case res of
        Response status body \<Rightarrow>
          status = 200 \<and>
          (case json_Unmarshal_VerifyResponse L body of
             Inr vr \<Rightarrow> VerifyResponse.Success vr
           | Inl e \<Rightarrow> False)
      | _ \<Rightarrow> False)"

text \<open>
  The trace of one call of \<open>Authenticate\<close> is read as a list of attempts joined by
  pauses. An attempt has the shape of the three-step sequence when it is one of these:
  nothing at all (the challenge request could not be built); the challenge request alone,
  where either the answer was not a 200 with a challenge in it, or the signing of the
  challenge failed, or the verify request could not be built; the challenge request
  answered 200 with a challenge, followed by the verify request that carries this very
  challenge and the client's signature of it. So an attempt that got a challenge and could
  sign it and build the request always goes on to the verify step. An attempt failed
  retryably when its last request got a retryable result; it verified when it has two
  requests and the result of the second succeeded.
\<close>

fun join_attempts :: "int \<Rightarrow> event list list \<Rightarrow> event list" where
  "join_attempts b [] = []"
| "join_attempts b [a] = a"
| "join_attempts b (a # a' # rest) = a @ [Slept b] @ join_attempts b (a' # rest)"

fun attempt_shape :: "stdlib \<Rightarrow> Client \<Rightarrow> event list \<Rightarrow> bool" where
  "attempt_shape L c [] = True"
| "attempt_shape L c [Sent req res] =
     (req = challenge_request c \<and>
      (case res of
         Response status body \<Rightarrow>
           if status = 200 then
             (case json_Unmarshal_ChallengeResponse L body of
                Inr ch \<Rightarrow>
                  (case signChallenge L c (ChallengeResponse.Challenge ch) of
                     Inr sg \<Rightarrow>
                       http_NewRequest_error L ''POST'' (baseURL c @ ''/verify'') \<noteq> None
                   | Inl e \<Rightarrow> True)
              | Inl e \<Rightarrow> True)
           else True
       | _ \<Rightarrow> True))"
| "attempt_shape L c [Sent req res, Sent req' res'] =
     (req = challenge_request c \<and>
      http_NewRequest_error L ''POST'' (baseURL c @ ''/verify'') = None \<and>
      (case res of
         Response status body \<Rightarrow>
           status = 200 \<and>
           (case json_Unmarshal_ChallengeResponse L body of
              Inr ch \<Rightarrow>
                (case signChallenge L c (ChallengeResponse.Challenge ch) of
                   Inr sg \<Rightarrow> req' = verify_request c (ChallengeResponse.Challenge ch) sg
                 | Inl e \<Rightarrow> False)
            | Inl e \<Rightarrow> False)
       | _ \<Rightarrow> False))"
| "attempt_shape L c a = False"

definition retryable_failure :: "event list \<Rightarrow> bool" where
  "retryable_failure a =
     (a \<noteq> [] \<and> (case last a of Sent req res \<Rightarrow> retryable_result res | Slept d \<Rightarrow> False))"

fun attempt_verified :: "stdlib \<Rightarrow> event list \<Rightarrow> bool" where
  "attempt_verified L [e, Sent req res] = verify_succeeded L res"
| "attempt_verified L a = False"

text \<open>
  The results recorded in a stretch of trace are the verifier's: each request that was
  sent got the answer the verifier gives to it after the history before it.
\<close>

fun answered_by :: "verifier \<Rightarrow> event list \<Rightarrow> event list \<Rightarrow> bool" where
  "answered_by V tr [] = True"
| "answered_by V tr (Sent req res # rest) =
     (res = V tr req \<and> answered_by V (tr @ [Sent req res]) rest)"
| "answered_by V tr (Slept d # rest) = answered_by V (tr @ [Slept d]) rest"

text \<open>
  The events that are requests (the others are pauses), and the requests of a trace in
  the order they were sent.
\<close>

definition is_Sent :: "event \<Rightarrow> bool" where
  "is_Sent e = (case e of Sent _ _ \<Rightarrow> True | Slept _ \<Rightarrow> False)"

fun sent_requests :: "event list \<Rightarrow> http_Request list" where
  "sent_requests [] = []"
| "sent_requests (Sent req res # tr) = req # sent_requests tr"
| "sent_requests (Slept d # tr) = sent_requests tr"

section \<open>Stand-ins for the library, to run the code\<close>

text \<open>
  A small library that satisfies the conditions above: the digest is the message, a
  signature is the digest behind a tag that depends on the key's modulus, and the
  encoding puts a plus sign before every byte.
\<close>

fun mock_decode :: "string \<Rightarrow> string + string" where
  "mock_decode [] = Inr []"
| "mock_decode [x] = Inl ''illegal base64 data''"
| "mock_decode (x # c # rest) =
     (if x = CHR ''+'' then (case mock_decode rest of Inl e \<Rightarrow> Inl e | Inr b \<Rightarrow> Inr (c # b))
      else Inl ''illegal base64 data'')"

definition mock_encode :: "string \<Rightarrow> string" where
  "mock_encode b = concat (map (\<lambda>c. [CHR ''+'', c]) b)"

definition mock_crypto :: crypto_lib where
  "mock_crypto =
     \<lparr>sha256_Sum256 = (\<lambda>msg. msg),
      rsa_SignPKCS1v15 = (\<lambda>k h. Inr (''sig'' @ replicate (nat (N k mod 10)) (CHR ''k'') @ '':'' @ h)),
      rsa_VerifyPKCS1v15 = (\<lambda>k h sg.
         if sg = ''sig'' @ replicate (nat (N k mod 10)) (CHR ''k'') @ '':'' @ h then None
         else Some ''crypto/rsa: verification error''),
      base64_EncodeToString = mock_encode,
      base64_DecodeString = mock_decode\<rparr>"

definition mock_key :: rsa_PrivateKey where
  "mock_key = \<lparr>N = 33, E = 3, D = 7, Primes = [3, 11]\<rparr>"

text \<open>
  Stand-ins for the JSON decoder and for \<open>http.NewRequest\<close>. A body \<open>challenge:x\<close>
  decodes to the challenge \<open>x\<close>; a body \<open>ok:t\<close> to a successful verify response with
  token \<open>t\<close> and two secrets; a body \<open>fail:m\<close> to a verify response, or an error
  response, with \<open>success\<close> false and error \<open>m\<close>; any other body is refused. A URL
  with a space in it is refused.
\<close>

definition after_prefix :: "string \<Rightarrow> string \<Rightarrow> string option" where
  "after_prefix p s = (if HasPrefix s p then Some (drop (length p) s) else None)"

definition mock_lib :: stdlib where
  "mock_lib =
     \<lparr>crypto = mock_crypto,
      json_Unmarshal_ChallengeResponse = (\<lambda>b.
         case after_prefix ''challenge:'' b of
           Some ch \<Rightarrow> Inr \<lparr>ChallengeResponse.Challenge = ch, ExpiresAt = 1700000000\<rparr>
         | None \<Rightarrow> Inl ''invalid character''),
      json_Unmarshal_VerifyResponse = (\<lambda>b.
         case after_prefix ''ok:'' b of
           Some tok \<Rightarrow> Inr \<lparr>VerifyResponse.Success = True, Token = tok,
              SecretData = [''API_KEY'' \<mapsto> ''a'', ''OTHER'' \<mapsto> ''b''],
              RepoList = [], VerifyResponse.Error = []\<rparr>
         | None \<Rightarrow>
            (case after_prefix ''fail:'' b of
               Some msg \<Rightarrow> Inr \<lparr>VerifyResponse.Success = False, Token = [],
                  SecretData = Map.empty, RepoList = [], VerifyResponse.Error = msg\<rparr>
             | None \<Rightarrow> Inl ''invalid character'')),
      json_Unmarshal_ErrorResponse = (\<lambda>b.
         case after_prefix ''fail:'' b of
           Some msg \<Rightarrow> Inr \<lparr>ErrorResponse.Error = msg, ErrorResponse.Success = False\<rparr>
         | None \<Rightarrow> Inl ''invalid character''),
      http_NewRequest_error = (\<lambda>m u.
         if CHR '' '' \<in> set u then Some ''invalid character in URL'' else None)\<rparr>"

text \<open>
  A verifier that answers every request well: a challenge request with a challenge, any
  other request with a successful verification.
\<close>

definition answer_ok :: "http_Request \<Rightarrow> http_result" where
  "answer_ok req =
     (if HasSuffix (req_url req) ''/challenge'' then Response 200 ''challenge:test-challenge-12345''
      else Response 200 ''ok:test-jwt-token'')"

definition verifier_ok :: verifier where
  "verifier_ok tr req = answer_ok req"

text \<open>
  A configuration with every optional field set, a heap with one \<open>http.Client\<close> that
  its owner configured with a timeout of five seconds, and the client that \<open>NewClient\<close>
  makes of them.
\<close>

definition config5 :: ClientConfig where
  "config5 =
     \<lparr>BaseURL = ''http://auth.example/'', ClientConfig.ClientID = ''test-client'',
      PrivateKey = Some mock_key, HTTPClient = Some 0, ClientConfig.Timeout = 0,
      SecretKeys = [''API_KEY''], ClientConfig.RepoUrl = ''https://github.com/o/r'',
      ClientConfig.GrpcEndpoint = ''grpc.example:443'',
      ClientConfig.IncludeRepoList = True, ClientConfig.TunnelUrl = []\<rparr>"

definition heap5 :: heap where
  "heap5 = [\<lparr>Transport = Some ''custom'', CheckRedirect = None, Jar = Some ''jar'',
             http_Client.Timeout = 5000000000\<rparr>]"

definition client5 :: Client where
  "client5 =
     \<lparr>baseURL = ''http://auth.example'', clientID = ''test-client'',
      privateKey = Some mock_key, httpClient = 0, timeout = 30000000000,
      maxRetries = 0, retryBackoff = 2000000000, secretKeys = [''API_KEY''],
      repoUrl = ''https://github.com/o/r'', grpcEndpoint = ''grpc.example:443''\<rparr>"

text \<open>
  A verifier that answers 503 to the first two requests it gets and answers well after
  that; a verifier that answers the challenge request well and the verify request with a
  given status and a body whose \<open>success\<close> is false; a verifier whose first answer
  has a body that cannot be read, for a given read error, and that answers well after
  that; and the signature the stand-in library makes of the test challenge.
\<close>

definition verifier_503_twice :: verifier where
  "verifier_503_twice tr req =
     (if length (filter is_Sent tr) < 2 then Response 503 ''Service Unavailable''
      else answer_ok req)"

definition verifier_rejects :: "int \<Rightarrow> verifier" where
  "verifier_rejects status tr req =
     (if HasSuffix (req_url req) ''/challenge'' then answer_ok req
      else Response status ''fail:Invalid signature'')"

definition verifier_read_error :: "error \<Rightarrow> verifier" where
  "verifier_read_error err tr req =
     (if filter is_Sent tr = [] then ReadError 200 err else answer_ok req)"

definition mock_signature :: string where
  "mock_signature = mock_encode ''sigkkk:test-challenge-12345''"

section \<open>Properties of the access gate\<close>

lemma isWhitelisted_loop_iff:
  "isWhitelisted_loop path ws = (\<exists>w \<in> set ws. \<exists>rest. path = w @ rest)"
proof (induction ws)
  case Nil
  show ?case by simp
next
  case (Cons w ws)
  have "HasPrefix path w = (\<exists>rest. path = w @ rest)"
    unfolding HasPrefix_def
    by (metis append_eq_conv_conj append_take_drop_id length_append le_add1)
  with Cons show ?case by auto
qed

lemma SplitN2_first:
  assumes "sep \<notin> set a"
  shows "SplitN2 (a @ sep # b) sep = [a, b]"
proof -
  from assms have "takeWhile (\<lambda>c. c \<noteq> sep) (a @ sep # b) = a"
    by (induction a) auto
  moreover from assms have "dropWhile (\<lambda>c. c \<noteq> sep) (a @ sep # b) = sep # b"
    by (induction a) auto
  ultimately show ?thesis by (simp add: SplitN2_def)
qed

lemma SplitN2_Bearer:
  "SplitN2 (''Bearer '' @ t) (CHR '' '') = [''Bearer'', t]"
  using SplitN2_first [of "CHR '' ''" "''Bearer''" t] by simp

lemma SplitN2_not_Bearer:
  assumes "\<not> (\<exists>t. h = ''Bearer '' @ t)"
  shows "length (SplitN2 h (CHR '' '')) \<noteq> 2 \<or> SplitN2 h (CHR '' '') ! 0 \<noteq> ''Bearer''"
proof (cases "CHR '' '' \<in> set h")
  case False
  then show ?thesis by (simp add: SplitN2_def)
next
  case True
  then obtain a b where h: "h = a @ CHR '' '' # b" and a: "CHR '' '' \<notin> set a"
    by (auto dest: split_list_first)
  have "a \<noteq> ''Bearer''"
  proof
    assume "a = ''Bearer''"
    with h have "h = ''Bearer '' @ b" by simp
    with assms show False by blast
  qed
  moreover from a h have "SplitN2 h (CHR '' '') = [a, b]"
    by (simp add: SplitN2_first)
  ultimately show ?thesis by simp
qed

lemma isWhitelisted_spec: "isWhitelisted config (Path r) = path_whitelisted config r"
  by (simp add: isWhitelisted_def path_whitelisted_def isWhitelisted_loop_iff)

lemma Middleware_token_check:
  assumes "past_origin_check config r"
  shows "Middleware config r =
     (let authHeader = Header_Get (Header r) ''Authorization'' in
        if authHeader = [] then http_Error ''Authorization header required'' StatusUnauthorized
        else
          let parts = SplitN2 authHeader (CHR '' '') in
          if length parts \<noteq> 2 \<or> parts ! 0 \<noteq> ''Bearer''
            then http_Error ''Invalid authorization header format'' StatusUnauthorized
          else
            let token = parts ! 1;
                expectedToken = GetAccessToken config ()
            in
              if expectedToken = []
                then http_Error ''Server authentication not initialized'' StatusInternalServerError
              else if token \<noteq> expectedToken
                then http_Error ''Invalid access token'' StatusUnauthorized
              else Next)"
  using assms
  by (auto simp add: Middleware_def past_origin_check_def isWhitelisted_spec isFromCloudflare_def)

text \<open>
  Claim C2, as amended. The gate decides in this order. A request with method OPTIONS is
  forwarded. Otherwise a request whose path is a whitelisted entry, or has one as a
  prefix, is forwarded, whatever its header. Otherwise, when the tunnel is required and
  the marker header is missing, the answer is 403, whatever the authorization header.
  Otherwise a missing authorization header gives 401, and so does one that does not start
  with \<open>Bearer\<close> and a space. Otherwise an empty result of the token supplier gives
  500, whatever the token. Otherwise a token that differs from the supplier's gives 401
  and an equal one forwards the request.
\<close>

theorem gate_decision_order:
  "(Method r = ''OPTIONS'' \<longrightarrow> Middleware config r = Next)
 \<and> (Method r \<noteq> ''OPTIONS'' \<and> path_whitelisted config r \<longrightarrow> Middleware config r = Next)
 \<and> (Method r \<noteq> ''OPTIONS'' \<and> \<not> path_whitelisted config r \<and> RequireTunnel config \<and>
      Header_Get (Header r) ''Cloudflare-Cdn-Loop'' = [] \<longrightarrow>
      Middleware config r = http_Error ''Access denied: not from Cloudflare Tunnel'' 403)
 \<and> (past_origin_check config r \<and> Header_Get (Header r) ''Authorization'' = [] \<longrightarrow>
      Middleware config r = http_Error ''Authorization header required'' 401)
 \<and> (past_origin_check config r \<and> Header_Get (Header r) ''Authorization'' \<noteq> [] \<and>
      \<not> (\<exists>t. Header_Get (Header r) ''Authorization'' = ''Bearer '' @ t) \<longrightarrow>
      Middleware config r = http_Error ''Invalid authorization header format'' 401)
 \<and> (past_origin_check config r \<and> Header_Get (Header r) ''Authorization'' = ''Bearer '' @ t \<and>
      GetAccessToken config () = [] \<longrightarrow>
      Middleware config r = http_Error ''Server authentication not initialized'' 500)
 \<and> (past_origin_check config r \<and> Header_Get (Header r) ''Authorization'' = ''Bearer '' @ t \<and>
      GetAccessToken config () \<noteq> [] \<and> t \<noteq> GetAccessToken config () \<longrightarrow>
      Middleware config r = http_Error ''Invalid access token'' 401)
 \<and> (past_origin_check config r \<and> Header_Get (Header r) ''Authorization'' = ''Bearer '' @ t \<and>
      GetAccessToken config () \<noteq> [] \<and> t = GetAccessToken config () \<longrightarrow>
      Middleware config r = Next)"
proof -
  have options: "Method r = ''OPTIONS'' \<Longrightarrow> Middleware config r = Next"
    by (simp add: Middleware_def)
  have whitelist: "Method r \<noteq> ''OPTIONS'' \<Longrightarrow> path_whitelisted config r \<Longrightarrow>
      Middleware config r = Next"
    by (simp add: Middleware_def isWhitelisted_spec)
  have tunnel: "Method r \<noteq> ''OPTIONS'' \<Longrightarrow> \<not> path_whitelisted config r \<Longrightarrow>
      RequireTunnel config \<Longrightarrow> Header_Get (Header r) ''Cloudflare-Cdn-Loop'' = [] \<Longrightarrow>
      Middleware config r = http_Error ''Access denied: not from Cloudflare Tunnel'' 403"
    by (simp add: Middleware_def isWhitelisted_spec isFromCloudflare_def StatusForbidden_def)
  have missing: "past_origin_check config r \<Longrightarrow>
      Header_Get (Header r) ''Authorization'' = [] \<Longrightarrow>
      Middleware config r = http_Error ''Authorization header required'' 401"
    by (simp add: Middleware_token_check StatusUnauthorized_def)
  have malformed: "past_origin_check config r \<Longrightarrow>
      Header_Get (Header r) ''Authorization'' \<noteq> [] \<Longrightarrow>
      \<not> (\<exists>t. Header_Get (Header r) ''Authorization'' = ''Bearer '' @ t) \<Longrightarrow>
      Middleware config r = http_Error ''Invalid authorization header format'' 401"
    using SplitN2_not_Bearer [of "Header_Get (Header r) ''Authorization''"]
    by (simp add: Middleware_token_check StatusUnauthorized_def Let_def)
  have bearer: "past_origin_check config r \<Longrightarrow>
      Header_Get (Header r) ''Authorization'' = ''Bearer '' @ t \<Longrightarrow>
      Middleware config r =
        (if GetAccessToken config () = []
           then http_Error ''Server authentication not initialized'' 500
         else if t \<noteq> GetAccessToken config ()
           then http_Error ''Invalid access token'' 401
         else Next)"
    using SplitN2_Bearer [of t]
    by (simp add: Middleware_token_check StatusUnauthorized_def
        StatusInternalServerError_def Let_def)
  show ?thesis
    using options whitelist tunnel missing malformed bearer by simp
qed

theorem gate_decision_order_witness:
  "Middleware (gate_config ''right'' [] False) (request ''OPTIONS'' ''/api/x'' []) = Next
 \<and> Middleware (gate_config ''right'' [''/health''] False) (request ''GET'' ''/health'' []) = Next
 \<and> Middleware (gate_config ''right'' [] True)
      (request ''GET'' ''/api/x'' [(''Authorization'', ''Bearer right'')])
    = http_Error ''Access denied: not from Cloudflare Tunnel'' 403
 \<and> Middleware (gate_config ''right'' [] False) (request ''GET'' ''/api/x'' [])
    = http_Error ''Authorization header required'' 401
 \<and> Middleware (gate_config ''right'' [] False)
      (request ''GET'' ''/api/x'' [(''Authorization'', ''Basic right'')])
    = http_Error ''Invalid authorization header format'' 401
 \<and> Middleware (gate_config [] [] False)
      (request ''GET'' ''/api/x'' [(''Authorization'', ''Bearer right'')])
    = http_Error ''Server authentication not initialized'' 500
 \<and> Middleware (gate_config ''right'' [] False)
      (request ''GET'' ''/api/x'' [(''Authorization'', ''Bearer wrong'')])
    = http_Error ''Invalid access token'' 401
 \<and> Middleware (gate_config ''right'' [] False)
      (request ''GET'' ''/api/x'' [(''Authorization'', ''Bearer right'')])
    = Next"
  using
    gate_decision_order [of "request ''OPTIONS'' ''/api/x'' []" "gate_config ''right'' [] False" "[]"]
    gate_decision_order [of "request ''GET'' ''/health'' []"
      "gate_config ''right'' [''/health''] False" "[]"]
    gate_decision_order [of "request ''GET'' ''/api/x'' [(''Authorization'', ''Bearer right'')]"
      "gate_config ''right'' [] True" "''right''"]
    gate_decision_order [of "request ''GET'' ''/api/x'' []" "gate_config ''right'' [] False" "[]"]
    gate_decision_order [of "request ''GET'' ''/api/x'' [(''Authorization'', ''Basic right'')]"
      "gate_config ''right'' [] False" "[]"]
    gate_decision_order [of "request ''GET'' ''/api/x'' [(''Authorization'', ''Bearer right'')]"
      "gate_config [] [] False" "''right''"]
    gate_decision_order [of "request ''GET'' ''/api/x'' [(''Authorization'', ''Bearer wrong'')]"
      "gate_config ''right'' [] False" "''wrong''"]
    gate_decision_order [of "request ''GET'' ''/api/x'' [(''Authorization'', ''Bearer right'')]"
      "gate_config ''right'' [] False" "''right''"]
  by (simp add: past_origin_check_def path_whitelisted_def request_def gate_config_def
      Header_Get_def)

text \<open>
  The claim as written lists the wrong token (401) before the empty supplier (500). With
  the supplier empty, a request that presents the token \<open>wrong\<close> is answered 500, not
  401; and with the supplier empty and no authorization header the answer is 401, not 500.
\<close>

theorem gate_unready_supplier_counterexample:
  "Header_Get (Header (request ''GET'' ''/api/x'' [(''Authorization'', ''Bearer wrong'')]))
      ''Authorization'' = ''Bearer wrong''
 \<and> GetAccessToken (gate_config [] [] False) () \<noteq> ''wrong''
 \<and> Middleware (gate_config [] [] False)
      (request ''GET'' ''/api/x'' [(''Authorization'', ''Bearer wrong'')])
    = http_Error ''Server authentication not initialized'' 500
 \<and> GetAccessToken (gate_config [] [] False) () = []
 \<and> Middleware (gate_config [] [] False) (request ''GET'' ''/api/x'' [])
    = http_Error ''Authorization header required'' 401"
  by (simp add: Middleware_def isWhitelisted_def isFromCloudflare_def request_def
      gate_config_def Header_Get_def SplitN2_def StatusUnauthorized_def
      StatusInternalServerError_def)

text \<open>
  A header of the form the specification describes is one the code takes for well formed:
  the word \<open>Bearer\<close>, a space, and a token without a space.
\<close>

lemma Split_all_not_Nil: "Split_all s sep \<noteq> []"
  by (induction s) (auto split: list.split)

lemma Split_all_one: "Split_all s sep = [b] \<Longrightarrow> s = b \<and> sep \<notin> set b"
proof (induction s arbitrary: b)
  case Nil
  then show ?case by simp
next
  case (Cons c cs)
  show ?case
  proof (cases "c = sep")
    case True
    with Cons.prems show ?thesis by (simp add: Split_all_not_Nil)
  next
    case False
    with Cons.prems obtain p where p: "Split_all cs sep = [p]" "b = c # p"
      by (auto simp add: Split_all_not_Nil split: list.splits)
    from Cons.IH [OF p(1)] p(2) False show ?thesis by simp
  qed
qed

lemma Split_all_two: "Split_all s sep = [a, b] \<Longrightarrow> s = a @ sep # b \<and> sep \<notin> set b"
proof (induction s arbitrary: a)
  case Nil
  then show ?case by simp
next
  case (Cons c cs)
  show ?case
  proof (cases "c = sep")
    case True
    with Cons.prems have "a = []" "Split_all cs sep = [b]" by simp_all
    with Split_all_one [of cs sep b] True show ?thesis by simp
  next
    case False
    with Cons.prems obtain p where p: "Split_all cs sep = [p, b]" "a = c # p"
      by (auto simp add: Split_all_not_Nil split: list.splits)
    from Cons.IH [OF p(1)] p(2) show ?thesis by simp
  qed
qed

lemma spec_bearer_form_is_accepted:
  assumes "spec_bearer_form h"
  shows "\<exists>t. h = ''Bearer '' @ t \<and> CHR '' '' \<notin> set t"
proof -
  from assms obtain b where "Split_all h (CHR '' '') = [''Bearer'', b]"
    by (auto simp add: spec_bearer_form_def split: list.splits)
  from Split_all_two [OF this] show ?thesis by simp
qed

text \<open>
  Claim C3, as amended. A request that is past the origin check and carries an
  authorization header is rejected with 401 when the header does not consist of the word
  \<open>Bearer\<close>, one space, and a rest. The rest is the token, spaces included: the code
  cuts the header at its first space only.
\<close>

theorem gate_malformed_header_unauthorized:
  assumes "Method r \<noteq> ''OPTIONS''"
    and "\<not> path_whitelisted config r"
    and "RequireTunnel config \<longrightarrow> Header_Get (Header r) ''Cloudflare-Cdn-Loop'' \<noteq> []"
    and "Header_Get (Header r) ''Authorization'' \<noteq> []"
    and "\<not> (\<exists>t. Header_Get (Header r) ''Authorization'' = ''Bearer '' @ t)"
  shows "Middleware config r = http_Error ''Invalid authorization header format'' 401"
proof -
  from assms(1-3) have "past_origin_check config r"
    by (simp add: past_origin_check_def)
  moreover from assms(5)
  have "length (SplitN2 (Header_Get (Header r) ''Authorization'') (CHR '' '')) \<noteq> 2
      \<or> SplitN2 (Header_Get (Header r) ''Authorization'') (CHR '' '') ! 0 \<noteq> ''Bearer''"
    by (rule SplitN2_not_Bearer)
  ultimately show ?thesis
    using assms(4) by (simp add: Middleware_token_check StatusUnauthorized_def Let_def)
qed

theorem gate_malformed_header_unauthorized_witness:
  "Middleware (gate_config ''test-token-123'' [] False)
      (request ''GET'' ''/api/test'' [(''Authorization'', ''Basic test-token-123'')])
    = http_Error ''Invalid authorization header format'' 401
 \<and> Middleware (gate_config ''test-token-123'' [''/health''] True)
      (request ''POST'' ''/api/test''
         [(''Authorization'', ''Bearer''), (''Cloudflare-Cdn-Loop'', ''cloudflare'')])
    = http_Error ''Invalid authorization header format'' 401"
  using
    gate_malformed_header_unauthorized [of
      "request ''GET'' ''/api/test'' [(''Authorization'', ''Basic test-token-123'')]"
      "gate_config ''test-token-123'' [] False"]
    gate_malformed_header_unauthorized [of
      "request ''POST'' ''/api/test''
         [(''Authorization'', ''Bearer''), (''Cloudflare-Cdn-Loop'', ''cloudflare'')]"
      "gate_config ''test-token-123'' [''/health''] True"]
  by (simp add: path_whitelisted_def request_def gate_config_def Header_Get_def)

text \<open>
  The claim as written asks for exactly two parts between spaces. The header
  \<open>Bearer a b\<close> has three, yet the gate takes \<open>a b\<close> for its token: it forwards the
  request when the supplier's token is \<open>a b\<close>, and answers 500, not 401, when the
  supplier is empty.
\<close>

theorem gate_three_part_header_counterexample:
  "\<not> spec_bearer_form ''Bearer a b''
 \<and> Middleware (gate_config ''a b'' [] False)
      (request ''GET'' ''/api/x'' [(''Authorization'', ''Bearer a b'')]) = Next
 \<and> Middleware (gate_config [] [] False)
      (request ''GET'' ''/api/x'' [(''Authorization'', ''Bearer a b'')])
    = http_Error ''Server authentication not initialized'' 500"
  by (simp add: spec_bearer_form_def Middleware_def isWhitelisted_def isFromCloudflare_def
      request_def gate_config_def Header_Get_def SplitN2_def StatusInternalServerError_def)

section \<open>Properties of the signature engine\<close>

lemma mock_valid: "valid_key_pair mock_crypto mock_key (PublicKey_of mock_key)"
  by (simp add: valid_key_pair_def mock_crypto_def mock_key_def PublicKey_of_def)

lemma mock_decode_encode: "mock_decode (mock_encode b) = Inr b"
  by (induction b) (simp_all add: mock_encode_def)

lemma mock_b64: "base64_round_trip mock_crypto"
  by (auto simp add: base64_round_trip_def mock_crypto_def mock_decode_encode)
    (simp add: mock_encode_def)

text \<open>
  Claim C8, as amended. \<open>SignChallenge\<close> fails with the error of an absent key
  (\<open>private key is nil\<close>) whenever the key is nil, whatever the challenge, and with the
  error of an empty input (\<open>challenge is empty\<close>) whenever the challenge is empty and a
  key is given. \<open>VerifySignature\<close> fails with \<open>public key is nil\<close> whenever the key is
  nil, whatever the other arguments, and with \<open>challenge is empty\<close> whenever the
  challenge is empty and a key is given, whatever the signature. With a key and a
  challenge that is not empty, a signature string that is not empty and that the base64
  decoder refuses fails with \<open>failed to decode signature\<close>, wrapping the decoder's error.
\<close>

theorem sign_verify_argument_errors:
  "SignChallenge L None c = Inl (Errorf ''private key is nil'' [] None)
 \<and> SignChallenge L (Some k) [] = Inl (Errorf ''challenge is empty'' [] None)
 \<and> VerifySignature L None c s = Some (Errorf ''public key is nil'' [] None)
 \<and> VerifySignature L (Some pk) [] s = Some (Errorf ''challenge is empty'' [] None)
 \<and> (c \<noteq> [] \<and> s \<noteq> [] \<and> base64_DecodeString L s = Inl e \<longrightarrow>
      VerifySignature L (Some pk) c s
        = Some (Errorf ''failed to decode signature: %w'' [] (Some (LibraryError e))))"
  by (simp add: SignChallenge_def VerifySignature_def)

theorem sign_verify_argument_errors_witness:
  "SignChallenge mock_crypto None ''abc'' = Inl (Errorf ''private key is nil'' [] None)
 \<and> SignChallenge mock_crypto (Some mock_key) [] = Inl (Errorf ''challenge is empty'' [] None)
 \<and> VerifySignature mock_crypto None ''abc'' ''!!'' = Some (Errorf ''public key is nil'' [] None)
 \<and> VerifySignature mock_crypto (Some (PublicKey_of mock_key)) [] ''!!''
      = Some (Errorf ''challenge is empty'' [] None)
 \<and> base64_DecodeString mock_crypto ''!!'' = Inl ''illegal base64 data''
 \<and> VerifySignature mock_crypto (Some (PublicKey_of mock_key)) ''abc'' ''!!''
      = Some (Errorf ''failed to decode signature: %w'' []
          (Some (LibraryError ''illegal base64 data'')))"
  using sign_verify_argument_errors [of mock_crypto "''abc''" mock_key "''!!''"
      "PublicKey_of mock_key" "''illegal base64 data''"]
  by (simp add: mock_crypto_def)

text \<open>
  The claim as written promises the error of the empty challenge regardless of the other
  arguments. With a nil key and an empty challenge both functions report the nil key: the
  key is checked first.
\<close>

theorem sign_nil_key_empty_challenge_counterexample:
  "SignChallenge mock_crypto None [] = Inl (Errorf ''private key is nil'' [] None)
 \<and> SignChallenge mock_crypto None [] \<noteq> Inl (Errorf ''challenge is empty'' [] None)
 \<and> VerifySignature mock_crypto None [] ''!!'' = Some (Errorf ''public key is nil'' [] None)
 \<and> VerifySignature mock_crypto None [] ''!!'' \<noteq> Some (Errorf ''challenge is empty'' [] None)"
  by (simp add: SignChallenge_def VerifySignature_def)

text \<open>
  Claim C9, as amended. For a valid key pair, a round-tripping encoding and a challenge
  that is not empty, \<open>SignChallenge\<close> succeeds and \<open>VerifySignature\<close> accepts its
  result for the same challenge; for every other challenge that is not empty and whose
  digest differs, it fails with \<open>signature verification failed\<close>; for the empty
  challenge it fails with \<open>challenge is empty\<close>.
\<close>

theorem sign_then_verify:
  assumes "valid_key_pair L priv pub" and "base64_round_trip L" and "c \<noteq> []"
  shows "\<exists>s. SignChallenge L (Some priv) c = Inr s
     \<and> VerifySignature L (Some pub) c s = None
     \<and> (\<forall>c'. c' \<noteq> [] \<and> sha256_Sum256 L c' \<noteq> sha256_Sum256 L c \<longrightarrow>
          (\<exists>e. VerifySignature L (Some pub) c' s
             = Some (Errorf ''signature verification failed: %w'' [] (Some (LibraryError e)))))
     \<and> VerifySignature L (Some pub) [] s = Some (Errorf ''challenge is empty'' [] None)"
proof -
  from assms(1) obtain sg where
    sg: "rsa_SignPKCS1v15 L priv (sha256_Sum256 L c) = Inr sg" "sg \<noteq> []"
      "rsa_VerifyPKCS1v15 L pub (sha256_Sum256 L c) sg = None"
      "\<And>m'. sha256_Sum256 L m' \<noteq> sha256_Sum256 L c \<Longrightarrow>
         rsa_VerifyPKCS1v15 L pub (sha256_Sum256 L m') sg \<noteq> None"
    unfolding valid_key_pair_def by blast
  from assms(2) have dec: "base64_DecodeString L (base64_EncodeToString L sg) = Inr sg"
    and ne: "base64_EncodeToString L sg \<noteq> []"
    using sg(2) unfolding base64_round_trip_def by blast+
  have 1: "SignChallenge L (Some priv) c = Inr (base64_EncodeToString L sg)"
    using assms(3) sg(1) by (simp add: SignChallenge_def)
  have 2: "VerifySignature L (Some pub) c (base64_EncodeToString L sg) = None"
    using assms(3) dec ne sg(3) by (simp add: VerifySignature_def)
  have 3: "\<exists>e. VerifySignature L (Some pub) c' (base64_EncodeToString L sg)
             = Some (Errorf ''signature verification failed: %w'' [] (Some (LibraryError e)))"
    if "c' \<noteq> []" "sha256_Sum256 L c' \<noteq> sha256_Sum256 L c" for c'
  proof -
    from sg(4) [OF that(2)] obtain e
      where "rsa_VerifyPKCS1v15 L pub (sha256_Sum256 L c') sg = Some e" by blast
    with that(1) dec ne show ?thesis by (simp add: VerifySignature_def)
  qed
  have 4: "VerifySignature L (Some pub) [] (base64_EncodeToString L sg)
      = Some (Errorf ''challenge is empty'' [] None)"
    by (simp add: VerifySignature_def)
  from 1 2 3 4 show ?thesis by blast
qed

theorem sign_then_verify_witness:
  "valid_key_pair mock_crypto mock_key (PublicKey_of mock_key)
 \<and> base64_round_trip mock_crypto
 \<and> SignChallenge mock_crypto (Some mock_key) ''abc'' = Inr ''+s+i+g+k+k+k+:+a+b+c''
 \<and> VerifySignature mock_crypto (Some (PublicKey_of mock_key)) ''abc'' ''+s+i+g+k+k+k+:+a+b+c'' = None
 \<and> VerifySignature mock_crypto (Some (PublicKey_of mock_key)) ''abd'' ''+s+i+g+k+k+k+:+a+b+c''
      = Some (Errorf ''signature verification failed: %w'' []
           (Some (LibraryError ''crypto/rsa: verification error'')))"
proof -
  have s: "SignChallenge mock_crypto (Some mock_key) ''abc'' = Inr ''+s+i+g+k+k+k+:+a+b+c''"
    by (simp add: SignChallenge_def mock_crypto_def mock_key_def mock_encode_def
        eval_nat_numeral)
  from sign_then_verify [OF mock_valid mock_b64, of "''abc''"] s
  have "VerifySignature mock_crypto (Some (PublicKey_of mock_key)) ''abc'' ''+s+i+g+k+k+k+:+a+b+c'' = None"
    and "\<exists>e. VerifySignature mock_crypto (Some (PublicKey_of mock_key)) ''abd'' ''+s+i+g+k+k+k+:+a+b+c''
             = Some (Errorf ''signature verification failed: %w'' [] (Some (LibraryError e)))"
    by (auto simp add: mock_crypto_def)
  moreover have "rsa_VerifyPKCS1v15 mock_crypto (PublicKey_of mock_key) ''abd'' ''+s+i+g+k+k+k+:+a+b+c''
     = Some ''crypto/rsa: verification error''"
    by (simp add: mock_crypto_def)
  ultimately show ?thesis using s mock_valid mock_b64
    by (auto simp add: VerifySignature_def mock_crypto_def)
qed

text \<open>
  The claim as written promises a signature mismatch for every challenge other than the
  signed one. The empty challenge is another challenge, and verification refuses it as an
  empty input before it looks at the signature.
\<close>

theorem sign_then_verify_empty_challenge_counterexample:
  "SignChallenge mock_crypto (Some mock_key) ''abc'' = Inr ''+s+i+g+k+k+k+:+a+b+c''
 \<and> '''' \<noteq> ''abc''
 \<and> VerifySignature mock_crypto (Some (PublicKey_of mock_key)) '''' ''+s+i+g+k+k+k+:+a+b+c''
      = Some (Errorf ''challenge is empty'' [] None)"
  by (simp add: SignChallenge_def VerifySignature_def mock_crypto_def mock_key_def
      mock_encode_def eval_nat_numeral)

section \<open>Properties of the constructor\<close>

lemma TrimSuffix_slash:
  "TrimSuffix s ''/'' = (if s \<noteq> [] \<and> last s = CHR ''/'' then butlast s else s)"
proof (cases s rule: rev_cases)
  case Nil
  then show ?thesis by (simp add: TrimSuffix_def HasSuffix_def)
next
  case (snoc ys y)
  then show ?thesis by (simp add: TrimSuffix_def HasSuffix_def)
qed

lemma NewClient_invalid:
  "\<not> valid_config config \<Longrightarrow>
     \<exists>e. NewClient config h = (Inl e, h) \<and> errors_Is e ErrInvalidConfig"
  by (auto simp add: NewClient_def valid_config_def)

lemma NewClient_valid:
  assumes "valid_config config"
  shows "NewClient config h =
    (let a = (case HTTPClient config of None \<Rightarrow> length h | Some a \<Rightarrow> a);
         h1 = (case HTTPClient config of
                 None \<Rightarrow> h @ [\<lparr>Transport = None, CheckRedirect = None, Jar = None,
                                http_Client.Timeout = 0\<rparr>]
               | Some a \<Rightarrow> h)
     in (Inr \<lparr>baseURL = TrimSuffix (BaseURL config) ''/'',
              clientID = ClientConfig.ClientID config,
              privateKey = PrivateKey config,
              httpClient = a,
              timeout = effective_timeout config,
              maxRetries = 0,
              retryBackoff = 2000000000,
              secretKeys = SecretKeys config,
              repoUrl = ClientConfig.RepoUrl config,
              grpcEndpoint = ClientConfig.GrpcEndpoint config\<rparr>,
         h1[a := (h1 ! a)\<lparr>http_Client.Timeout := effective_timeout config\<rparr>]))"
  using assms
  by (simp add: NewClient_def valid_config_def effective_timeout_def Second_def Let_def
      split: option.split)

text \<open>
  Claim C7, as amended. \<open>NewClient\<close> fails exactly when the endpoint is empty, the
  client identifier is empty or the key is absent, and then with an error that wraps
  \<open>ErrInvalidConfig\<close>. On success the stored endpoint is the configured one with one
  trailing slash removed, if it has one; the request timeout is the configured one, or
  thirty seconds when none is given, both in the client's own field and in the
  \<open>Timeout\<close> field of the \<open>http.Client\<close> that the client holds and sends its
  requests with (the supplied one, or a fresh one when none was supplied); the retry
  count is zero. Nothing else makes it fail: in particular the scheme of the endpoint
  does not.
\<close>

theorem NewClient_contract:
  "((\<exists>e. fst (NewClient config h) = Inl e) \<longleftrightarrow>
      (BaseURL config = [] \<or> ClientConfig.ClientID config = [] \<or> PrivateKey config = None))
 \<and> (\<forall>e. fst (NewClient config h) = Inl e \<longrightarrow> errors_Is e ErrInvalidConfig)
 \<and> (\<forall>c. fst (NewClient config h) = Inr c \<longrightarrow>
       baseURL c = (if BaseURL config \<noteq> [] \<and> last (BaseURL config) = CHR ''/''
                    then butlast (BaseURL config) else BaseURL config)
     \<and> timeout c = (if ClientConfig.Timeout config = 0 then 30 * 1000000000
                     else ClientConfig.Timeout config)
     \<and> maxRetries c = 0)
 \<and> (\<forall>c. fst (NewClient config h) = Inr c
        \<and> (\<forall>a. HTTPClient config = Some a \<longrightarrow> a < length h) \<longrightarrow>
       httpClient c = (case HTTPClient config of Some a \<Rightarrow> a | None \<Rightarrow> length h)
     \<and> httpClient c < length (snd (NewClient config h))
     \<and> http_Client.Timeout (snd (NewClient config h) ! httpClient c)
         = (if ClientConfig.Timeout config = 0 then 30 * 1000000000
            else ClientConfig.Timeout config))
 \<and> (BaseURL config \<noteq> [] \<and> ClientConfig.ClientID config \<noteq> [] \<and> PrivateKey config \<noteq> None
      \<longrightarrow> (\<exists>c. fst (NewClient config h) = Inr c))"
proof (cases "valid_config config")
  case True
  have heap: "a < length (snd (NewClient config h))
      \<and> http_Client.Timeout (snd (NewClient config h) ! a) = effective_timeout config"
    if "a = (case HTTPClient config of Some a \<Rightarrow> a | None \<Rightarrow> length h)"
      and "\<forall>a. HTTPClient config = Some a \<longrightarrow> a < length h" for a
    using that by (cases "HTTPClient config") (simp_all add: NewClient_valid [OF True] Let_def)
  from True have rest: "fst (NewClient config h) = Inr c \<Longrightarrow>
       baseURL c = (if BaseURL config \<noteq> [] \<and> last (BaseURL config) = CHR ''/''
                    then butlast (BaseURL config) else BaseURL config)
     \<and> timeout c = effective_timeout config \<and> maxRetries c = 0
     \<and> httpClient c = (case HTTPClient config of Some a \<Rightarrow> a | None \<Rightarrow> length h)" for c
    by (auto simp add: NewClient_valid Let_def TrimSuffix_slash)
  from True have ex: "\<exists>c. fst (NewClient config h) = Inr c"
    by (simp add: NewClient_valid Let_def)
  from True ex rest heap show ?thesis
    by (auto simp add: valid_config_def effective_timeout_def)
next
  case False
  from NewClient_invalid [OF this, of h] obtain e
    where "NewClient config h = (Inl e, h)" "errors_Is e ErrInvalidConfig" by blast
  with False show ?thesis by (auto simp add: valid_config_def)
qed

theorem NewClient_contract_witness:
  "fst (NewClient config5 heap5) = Inr client5
 \<and> baseURL client5 = ''http://auth.example''
 \<and> timeout client5 = 30 * 1000000000
 \<and> maxRetries client5 = 0
 \<and> HTTPClient config5 = Some 0 \<and> (0 :: nat) < length heap5
 \<and> httpClient client5 = 0
 \<and> http_Client.Timeout (snd (NewClient config5 heap5) ! 0) = 30 * 1000000000
 \<and> fst (NewClient (config5\<lparr>HTTPClient := None\<rparr>) heap5) = Inr (client5\<lparr>httpClient := 1\<rparr>)
 \<and> http_Client.Timeout (snd (NewClient (config5\<lparr>HTTPClient := None\<rparr>) heap5) ! 1)
     = 30 * 1000000000
 \<and> fst (NewClient (config5\<lparr>BaseURL := []\<rparr>) heap5)
     = Inl (Errorf ''%w: baseURL is required'' [] (Some ErrInvalidConfig))
 \<and> errors_Is (Errorf ''%w: baseURL is required'' [] (Some ErrInvalidConfig)) ErrInvalidConfig"
proof -
  have 1: "fst (NewClient config5 heap5) = Inr client5"
    by (simp add: NewClient_def config5_def heap5_def client5_def Second_def
        TrimSuffix_def HasSuffix_def Let_def)
  have 2: "fst (NewClient (config5\<lparr>BaseURL := []\<rparr>) heap5)
     = Inl (Errorf ''%w: baseURL is required'' [] (Some ErrInvalidConfig))"
    by (simp add: NewClient_def config5_def)
  have 3: "fst (NewClient (config5\<lparr>HTTPClient := None\<rparr>) heap5)
     = Inr (client5\<lparr>httpClient := 1\<rparr>)"
    by (simp add: NewClient_def config5_def heap5_def client5_def Second_def
        TrimSuffix_def HasSuffix_def Let_def)
  have p: "HTTPClient config5 = Some 0" "(0 :: nat) < length heap5" "length heap5 = 1"
    by (simp_all add: config5_def heap5_def)
  have f: "ClientConfig.Timeout config5 = 0" "BaseURL config5 = ''http://auth.example/''"
    by (simp_all add: config5_def)
  from NewClient_contract [of config5 heap5] 1 p f
  have a: "baseURL client5 = ''http://auth.example'' \<and> timeout client5 = 30 * 1000000000
      \<and> maxRetries client5 = 0 \<and> httpClient client5 = 0
      \<and> http_Client.Timeout (snd (NewClient config5 heap5) ! 0) = 30 * 1000000000"
    by auto
  from NewClient_contract [of "config5\<lparr>HTTPClient := None\<rparr>" heap5] 3 p(3) f(1)
  have b: "http_Client.Timeout (snd (NewClient (config5\<lparr>HTTPClient := None\<rparr>) heap5) ! 1)
     = 30 * 1000000000"
    by auto
  from NewClient_contract [of "config5\<lparr>BaseURL := []\<rparr>" heap5] 2
  have c: "errors_Is (Errorf ''%w: baseURL is required'' [] (Some ErrInvalidConfig))
      ErrInvalidConfig"
    by simp
  from a b c 1 2 3 p(1,2) show ?thesis by simp
qed

text \<open>
  The claim as written has any trailing slash trimmed. \<open>strings.TrimSuffix\<close> removes
  one: an endpoint that ends in two slashes is stored with a trailing slash.
\<close>

theorem NewClient_double_slash_counterexample:
  "fst (NewClient (config5\<lparr>BaseURL := ''https://x//''\<rparr>) heap5)
     = Inr (client5\<lparr>baseURL := ''https://x/''\<rparr>)
 \<and> HasSuffix (baseURL (client5\<lparr>baseURL := ''https://x/''\<rparr>)) ''/''"
  by (simp add: NewClient_def config5_def heap5_def client5_def Second_def
      TrimSuffix_def HasSuffix_def Let_def)

text \<open>
  Claim C10. When a valid configuration brings its own \<open>http.Client\<close>, \<open>NewClient\<close>
  keeps that very object and assigns the effective timeout to its \<open>Timeout\<close> field,
  whatever the field held. The heap after the call is the heap before with this one field
  of this one object changed: the other three fields of the object and all other objects
  are as they were.
\<close>

theorem NewClient_writes_supplied_client:
  assumes "valid_config config" and "HTTPClient config = Some a" and "a < length h"
  shows "(\<exists>c. NewClient config h
            = (Inr c, h[a := (h ! a)\<lparr>http_Client.Timeout := effective_timeout config\<rparr>])
          \<and> httpClient c = a \<and> timeout c = effective_timeout config)
    \<and> length (snd (NewClient config h)) = length h
    \<and> http_Client.Timeout (snd (NewClient config h) ! a) = effective_timeout config
    \<and> Transport (snd (NewClient config h) ! a) = Transport (h ! a)
    \<and> CheckRedirect (snd (NewClient config h) ! a) = CheckRedirect (h ! a)
    \<and> Jar (snd (NewClient config h) ! a) = Jar (h ! a)
    \<and> (\<forall>b < length h. b \<noteq> a \<longrightarrow> snd (NewClient config h) ! b = h ! b)"
  using assms by (simp add: NewClient_valid Let_def)

theorem NewClient_writes_supplied_client_witness:
  "valid_config config5 \<and> HTTPClient config5 = Some 0 \<and> (0::nat) < length heap5
 \<and> http_Client.Timeout (heap5 ! 0) = 5000000000
 \<and> NewClient config5 heap5
     = (Inr client5,
        [\<lparr>Transport = Some ''custom'', CheckRedirect = None, Jar = Some ''jar'',
          http_Client.Timeout = 30000000000\<rparr>])"
proof -
  have v: "valid_config config5" by (simp add: valid_config_def config5_def)
  have a: "HTTPClient config5 = Some 0" by (simp add: config5_def)
  have l: "(0::nat) < length heap5" by (simp add: heap5_def)
  have c: "fst (NewClient config5 heap5) = Inr client5"
    by (simp add: NewClient_def config5_def heap5_def client5_def Second_def
        TrimSuffix_def HasSuffix_def Let_def)
  from NewClient_writes_supplied_client [OF v a l] c
  have "NewClient config5 heap5
     = (Inr client5, heap5[0 := (heap5 ! 0)\<lparr>http_Client.Timeout := effective_timeout config5\<rparr>])"
    by auto
  then show ?thesis using v a l
    by (simp add: heap5_def effective_timeout_def config5_def)
qed

section \<open>Properties of the verify step\<close>

lemma filter_loop_restrict:
  "filter_loop sd keys acc = acc ++ (sd |` set keys)"
proof (induction keys arbitrary: acc)
  case Nil
  show ?case by simp
next
  case (Cons k keys)
  show ?case
  proof (cases "sd k")
    case None
    then have "sd |` set (k # keys) = sd |` set keys"
      by (auto simp add: restrict_map_def fun_eq_iff)
    with None Cons show ?thesis by simp
  next
    case (Some v)
    then have eq: "acc(k \<mapsto> v) ++ (sd |` set keys) = acc ++ (sd |` set (k # keys))"
      by (auto simp add: restrict_map_def map_add_def fun_eq_iff split: option.split)
    from Some have "filter_loop sd (k # keys) acc = filter_loop sd keys (acc(k \<mapsto> v))"
      by simp
    also have "\<dots> = acc(k \<mapsto> v) ++ (sd |` set keys)"
      by (rule Cons.IH)
    also note eq
    finally show ?thesis .
  qed
qed

lemma Client_VerifySignature_sent:
  assumes "http_NewRequest_error L ''POST'' (baseURL c @ ''/verify'') = None"
  shows "snd (Client_VerifySignature L V c ch sg tr)
       = tr @ [Sent (verify_request c ch sg) (V tr (verify_request c ch sg))]"
  using assms
  by (simp add: Client_VerifySignature_def verify_request_def Let_def
      split: http_result.split sum.split)

lemma Client_VerifySignature_not_sent:
  assumes "http_NewRequest_error L ''POST'' (baseURL c @ ''/verify'') = Some err"
  shows "Client_VerifySignature L V c ch sg tr
       = (Inl (Errorf ''failed to create request: %w'' [] (Some (LibraryError err))), tr)"
  using assms by (simp add: Client_VerifySignature_def Let_def)

lemma Client_VerifySignature_200:
  assumes "http_NewRequest_error L ''POST'' (baseURL c @ ''/verify'') = None"
    and "V tr (verify_request c ch sg) = Response 200 body"
    and "json_Unmarshal_VerifyResponse L body = Inr vr"
  shows "fst (Client_VerifySignature L V c ch sg tr) =
     (if \<not> VerifyResponse.Success vr
        then Inl (Errorf ''%w: %s'' [ArgS (VerifyResponse.Error vr)] (Some ErrUnauthorized))
      else if secretKeys c \<noteq> []
        then Inr (vr\<lparr>SecretData := filter_loop (SecretData vr) (secretKeys c) Map.empty\<rparr>)
      else Inr vr)"
  using assms
  by (simp add: Client_VerifySignature_def verify_request_def Let_def)

text \<open>
  Claim C6. When the verify endpoint answers 200 with a body that decodes to a response
  with \<open>success\<close> true, \<open>VerifySignature\<close> returns that response with its secret map
  filtered: under a filter that is not empty the returned map has exactly the filter's
  keys that the server's map has, each with the server's value, and a key of the filter
  that the server did not send is left out without an error; under the empty filter the
  map is the server's. The other fields of the response are the server's in both cases.
\<close>

theorem verify_secret_filter:
  assumes "http_NewRequest_error L ''POST'' (baseURL c @ ''/verify'') = None"
    and "V tr (verify_request c ch sg) = Response 200 body"
    and "json_Unmarshal_VerifyResponse L body = Inr vr"
    and "VerifyResponse.Success vr"
  shows "\<exists>r. fst (Client_VerifySignature L V c ch sg tr) = Inr r
     \<and> (secretKeys c \<noteq> [] \<longrightarrow>
          dom (SecretData r) = set (secretKeys c) \<inter> dom (SecretData vr)
        \<and> (\<forall>k \<in> set (secretKeys c). SecretData r k = SecretData vr k)
        \<and> (\<forall>k. k \<notin> set (secretKeys c) \<longrightarrow> SecretData r k = None))
     \<and> (secretKeys c = [] \<longrightarrow> SecretData r = SecretData vr)
     \<and> r = vr\<lparr>SecretData := SecretData r\<rparr>"
proof (cases "secretKeys c = []")
  case True
  with assms show ?thesis by (simp add: Client_VerifySignature_200)
next
  case False
  with assms have "fst (Client_VerifySignature L V c ch sg tr)
     = Inr (vr\<lparr>SecretData := SecretData vr |` set (secretKeys c)\<rparr>)"
    by (simp add: Client_VerifySignature_200 filter_loop_restrict)
  with False show ?thesis by (auto simp add: restrict_map_def dom_def)
qed

theorem verify_secret_filter_witness:
  "secretKeys client5 = [''API_KEY'']
 \<and> json_Unmarshal_VerifyResponse mock_lib ''ok:test-jwt-token''
     = Inr \<lparr>VerifyResponse.Success = True, Token = ''test-jwt-token'',
            SecretData = [''API_KEY'' \<mapsto> ''a'', ''OTHER'' \<mapsto> ''b''],
            RepoList = [], VerifyResponse.Error = []\<rparr>
 \<and> fst (Client_VerifySignature mock_lib verifier_ok client5 ''test-challenge-12345'' ''sig'' [])
     = Inr \<lparr>VerifyResponse.Success = True, Token = ''test-jwt-token'',
            SecretData = [''API_KEY'' \<mapsto> ''a''],
            RepoList = [], VerifyResponse.Error = []\<rparr>
 \<and> fst (Client_VerifySignature mock_lib verifier_ok (client5\<lparr>secretKeys := []\<rparr>)
        ''test-challenge-12345'' ''sig'' [])
     = Inr \<lparr>VerifyResponse.Success = True, Token = ''test-jwt-token'',
            SecretData = [''API_KEY'' \<mapsto> ''a'', ''OTHER'' \<mapsto> ''b''],
            RepoList = [], VerifyResponse.Error = []\<rparr>"
proof -
  let ?vr = "\<lparr>VerifyResponse.Success = True, Token = ''test-jwt-token'',
            SecretData = [''API_KEY'' \<mapsto> ''a'', ''OTHER'' \<mapsto> ''b''],
            RepoList = [], VerifyResponse.Error = []\<rparr>"
  have n: "http_NewRequest_error mock_lib ''POST'' (baseURL client5 @ ''/verify'') = None"
    and n': "http_NewRequest_error mock_lib ''POST''
       (baseURL (client5\<lparr>secretKeys := []\<rparr>) @ ''/verify'') = None"
    by (simp_all add: mock_lib_def client5_def)
  have v: "verifier_ok [] (verify_request client5 ''test-challenge-12345'' ''sig'')
      = Response 200 ''ok:test-jwt-token''"
    and v': "verifier_ok [] (verify_request (client5\<lparr>secretKeys := []\<rparr>)
       ''test-challenge-12345'' ''sig'') = Response 200 ''ok:test-jwt-token''"
    by (simp_all add: verifier_ok_def answer_ok_def verify_request_def client5_def
        HasSuffix_def)
  have j: "json_Unmarshal_VerifyResponse mock_lib ''ok:test-jwt-token'' = Inr ?vr"
    by (simp add: mock_lib_def after_prefix_def HasPrefix_def)
  have k: "secretKeys client5 = [''API_KEY'']" by (simp add: client5_def)
  from verify_secret_filter [where L = mock_lib and V = verifier_ok and tr = "[]"
      and c = client5 and ch = "''test-challenge-12345''" and sg = "''sig''", OF n v j]
  obtain r where
    r: "fst (Client_VerifySignature mock_lib verifier_ok client5 ''test-challenge-12345''
          ''sig'' []) = Inr r"
    and d: "\<forall>k. k \<notin> set (secretKeys client5) \<longrightarrow> SecretData r k = None"
       "\<forall>k \<in> set (secretKeys client5). SecretData r k = SecretData ?vr k"
    and e: "r = ?vr\<lparr>SecretData := SecretData r\<rparr>"
    using k by auto
  from d k have "SecretData r = [''API_KEY'' \<mapsto> ''a'']"
    by (auto simp add: fun_eq_iff)
  with e have "r = ?vr\<lparr>SecretData := [''API_KEY'' \<mapsto> ''a'']\<rparr>" by simp
  with r have 1: "fst (Client_VerifySignature mock_lib verifier_ok client5
       ''test-challenge-12345'' ''sig'' []) = Inr (?vr\<lparr>SecretData := [''API_KEY'' \<mapsto> ''a'']\<rparr>)"
    by simp
  from verify_secret_filter [where L = mock_lib and V = verifier_ok and tr = "[]"
      and c = "client5\<lparr>secretKeys := []\<rparr>" and ch = "''test-challenge-12345''"
      and sg = "''sig''", OF n' v' j]
  have 2:
    "fst (Client_VerifySignature mock_lib verifier_ok (client5\<lparr>secretKeys := []\<rparr>)
        ''test-challenge-12345'' ''sig'' []) = Inr ?vr"
    by auto
  from 1 2 j k show ?thesis by simp
qed

section \<open>Properties of authentication with retries\<close>

text \<open>
  The classification of errors: a wrapper made by \<open>fmt.Errorf\<close> with \<open>%w\<close> is as
  retryable as what it wraps, since both library calls walk the chain.
\<close>

lemma isRetryable_wrap [simp]:
  "isRetryable (Errorf f args (Some w)) = isRetryable w"
  by (simp add: isRetryable_def)

lemma isRetryable_network [simp]: "isRetryable ErrNetworkError"
  by (simp add: isRetryable_def)

lemma isRetryable_library [simp]: "\<not> isRetryable (LibraryError msg)"
  by (simp add: isRetryable_def)

lemma isRetryable_unauthorized [simp]: "\<not> isRetryable ErrUnauthorized"
  by (simp add: isRetryable_def)

lemma isRetryable_handleHTTPError [simp]:
  "isRetryable (handleHTTPError L status body) = ((500 \<le> status \<and> status \<le> 599) \<or> status = 429)"
  by (auto simp add: isRetryable_def handleHTTPError_def NewHTTPError_def Let_def
      split: sum.split)

text \<open>The classification of errors, in the terms of the two library calls it makes.\<close>

lemma isRetryable_iff:
  "isRetryable e \<longleftrightarrow>
     errors_Is e ErrNetworkError
     \<or> (\<exists>s m w. errors_As_HTTPError e = Some (s, m, w) \<and> ((500 \<le> s \<and> s \<le> 599) \<or> s = 429))"
  by (auto simp add: isRetryable_def split: option.splits)

lemma retryable_result_ReadError [simp]:
  "retryable_result (ReadError status err) = isRetryable err"
  by (auto simp add: retryable_result_def isRetryable_def split: option.splits)

text \<open>What each step returns, by what it sent and what came back.\<close>

lemma RequestChallenge_cases:
  obtains (not_sent) e where "RequestChallenge L V c tr = (Inl e, tr)" "\<not> isRetryable e"
      "http_NewRequest_error L ''POST'' (baseURL c @ ''/challenge'') \<noteq> None"
  | (failed) e res where
      "RequestChallenge L V c tr = (Inl e, tr @ [Sent (challenge_request c) res])"
      "isRetryable e = retryable_result res"
      "http_NewRequest_error L ''POST'' (baseURL c @ ''/challenge'') = None"
      "V tr (challenge_request c) = res"
      "attempt_shape L c [Sent (challenge_request c) res]"
  | (ok) ch body where
      "RequestChallenge L V c tr
         = (Inr ch, tr @ [Sent (challenge_request c) (Response 200 body)])"
      "json_Unmarshal_ChallengeResponse L body = Inr ch"
      "http_NewRequest_error L ''POST'' (baseURL c @ ''/challenge'') = None"
      "V tr (challenge_request c) = Response 200 body"
proof (cases "http_NewRequest_error L ''POST'' (baseURL c @ ''/challenge'')")
  case (Some err)
  then have "RequestChallenge L V c tr
      = (Inl (Errorf ''failed to create request: %w'' [] (Some (LibraryError err))), tr)"
    by (simp add: RequestChallenge_def)
  moreover have "\<not> isRetryable
      (Errorf ''failed to create request: %w'' [] (Some (LibraryError err)))"
    by simp
  moreover from Some
  have "http_NewRequest_error L ''POST'' (baseURL c @ ''/challenge'') \<noteq> None"
    by simp
  ultimately show ?thesis by (rule not_sent)
next
  case None
  show ?thesis
  proof (cases "V tr (challenge_request c)")
    case (DoError msg)
    with None have "RequestChallenge L V c tr
      = (Inl (Errorf ''%w: %v'' [ArgS msg] (Some ErrNetworkError)),
         tr @ [Sent (challenge_request c) (DoError msg)])"
      by (simp add: RequestChallenge_def challenge_request_def)
    then show ?thesis
      by (rule failed) (simp_all add: retryable_result_def None DoError)
  next
    case (ReadError status err)
    with None have "RequestChallenge L V c tr
      = (Inl (Errorf ''failed to read response: %w'' [] (Some err)),
         tr @ [Sent (challenge_request c) (ReadError status err)])"
      by (simp add: RequestChallenge_def challenge_request_def)
    then show ?thesis
      by (rule failed) (simp_all add: None ReadError)
  next
    case (Response status body)
    show ?thesis
    proof (cases "status = 200")
      case False
      with None Response have "RequestChallenge L V c tr
        = (Inl (handleHTTPError L status body),
           tr @ [Sent (challenge_request c) (Response status body)])"
        by (simp add: RequestChallenge_def challenge_request_def)
      then show ?thesis
        by (rule failed) (simp_all add: retryable_result_def None Response False)
    next
      case True
      show ?thesis
      proof (cases "json_Unmarshal_ChallengeResponse L body")
        case (Inl err)
        with None Response True have "RequestChallenge L V c tr
          = (Inl (Errorf ''failed to parse response: %w'' [] (Some (LibraryError err))),
             tr @ [Sent (challenge_request c) (Response status body)])"
          by (simp add: RequestChallenge_def challenge_request_def)
        then show ?thesis
          by (rule failed) (simp_all add: retryable_result_def True None Response Inl)
      next
        case (Inr ch)
        with None Response True have "RequestChallenge L V c tr
          = (Inr ch, tr @ [Sent (challenge_request c) (Response 200 body)])"
          by (simp add: RequestChallenge_def challenge_request_def)
        then show ?thesis by (rule ok) (simp_all add: Inr None Response True)
      qed
    qed
  qed
qed

lemma Client_VerifySignature_cases:
  obtains (not_sent) e where "Client_VerifySignature L V c ch sg tr = (Inl e, tr)"
      "\<not> isRetryable e"
      "http_NewRequest_error L ''POST'' (baseURL c @ ''/verify'') \<noteq> None"
  | (failed) e res where
      "Client_VerifySignature L V c ch sg tr
         = (Inl e, tr @ [Sent (verify_request c ch sg) res])"
      "isRetryable e = retryable_result res"
      "http_NewRequest_error L ''POST'' (baseURL c @ ''/verify'') = None"
      "V tr (verify_request c ch sg) = res"
      "\<not> verify_succeeded L res"
  | (ok) vr res where
      "Client_VerifySignature L V c ch sg tr
         = (Inr vr, tr @ [Sent (verify_request c ch sg) res])"
      "\<not> retryable_result res"
      "http_NewRequest_error L ''POST'' (baseURL c @ ''/verify'') = None"
      "V tr (verify_request c ch sg) = res"
      "verify_succeeded L res"
proof (cases "http_NewRequest_error L ''POST'' (baseURL c @ ''/verify'')")
  case (Some err)
  then have "Client_VerifySignature L V c ch sg tr
      = (Inl (Errorf ''failed to create request: %w'' [] (Some (LibraryError err))), tr)"
    by (rule Client_VerifySignature_not_sent)
  then show ?thesis by (rule not_sent) (simp_all add: Some)
next
  case None
  let ?req = "verify_request c ch sg"
  have snd: "snd (Client_VerifySignature L V c ch sg tr) = tr @ [Sent ?req (V tr ?req)]"
    using None by (rule Client_VerifySignature_sent)
  show ?thesis
  proof (cases "V tr ?req")
    case (DoError msg)
    with None have "fst (Client_VerifySignature L V c ch sg tr)
      = Inl (Errorf ''%w: %v'' [ArgS msg] (Some ErrNetworkError))"
      by (simp add: Client_VerifySignature_def verify_request_def)
    with snd DoError have "Client_VerifySignature L V c ch sg tr
      = (Inl (Errorf ''%w: %v'' [ArgS msg] (Some ErrNetworkError)),
         tr @ [Sent ?req (DoError msg)])"
      by (simp add: prod_eq_iff)
    then show ?thesis
      by (rule failed)
        (simp_all add: retryable_result_def verify_succeeded_def None DoError)
  next
    case (ReadError status err)
    with None have "fst (Client_VerifySignature L V c ch sg tr)
      = Inl (Errorf ''failed to read response: %w'' [] (Some err))"
      by (simp add: Client_VerifySignature_def verify_request_def)
    with snd ReadError have "Client_VerifySignature L V c ch sg tr
      = (Inl (Errorf ''failed to read response: %w'' [] (Some err)),
         tr @ [Sent ?req (ReadError status err)])"
      by (simp add: prod_eq_iff)
    then show ?thesis
      by (rule failed) (simp_all add: verify_succeeded_def None ReadError)
  next
    case (Response status body)
    show ?thesis
    proof (cases "status = 200")
      case False
      with None Response have "fst (Client_VerifySignature L V c ch sg tr)
        = Inl (handleHTTPError L status body)"
        by (simp add: Client_VerifySignature_def verify_request_def)
      with snd Response have "Client_VerifySignature L V c ch sg tr
        = (Inl (handleHTTPError L status body), tr @ [Sent ?req (Response status body)])"
        by (simp add: prod_eq_iff)
      then show ?thesis
        by (rule failed)
          (simp_all add: retryable_result_def verify_succeeded_def None Response False)
    next
      case True
      show ?thesis
      proof (cases "json_Unmarshal_VerifyResponse L body")
        case (Inl err)
        with None Response True have "fst (Client_VerifySignature L V c ch sg tr)
          = Inl (Errorf ''failed to parse response: %w'' [] (Some (LibraryError err)))"
          by (simp add: Client_VerifySignature_def verify_request_def Let_def)
        with snd Response have "Client_VerifySignature L V c ch sg tr
          = (Inl (Errorf ''failed to parse response: %w'' [] (Some (LibraryError err))),
             tr @ [Sent ?req (Response status body)])"
          by (simp add: prod_eq_iff)
        then show ?thesis
          by (rule failed)
            (simp_all add: retryable_result_def verify_succeeded_def None Response True Inl)
      next
        case (Inr vr)
        from Response True have v: "V tr ?req = Response 200 body" by simp
        note r = Client_VerifySignature_200 [where V = V and tr = tr and c = c and sg = sg
            and ch = ch, OF None v Inr]
        show ?thesis
        proof (cases "VerifyResponse.Success vr")
          case False
          with r snd Response have "Client_VerifySignature L V c ch sg tr
            = (Inl (Errorf ''%w: %s'' [ArgS (VerifyResponse.Error vr)] (Some ErrUnauthorized)),
               tr @ [Sent ?req (Response status body)])"
            by (simp add: prod_eq_iff)
          then show ?thesis
            by (rule failed)
              (simp_all add: retryable_result_def verify_succeeded_def None Response True
                Inr False)
        next
          case Success: True
          with r snd Response obtain vr' where "Client_VerifySignature L V c ch sg tr
            = (Inr vr', tr @ [Sent ?req (Response status body)])"
            by (cases "secretKeys c = []") (simp_all add: prod_eq_iff)
          then show ?thesis
            by (rule ok)
              (simp_all add: retryable_result_def verify_succeeded_def None Response True
                Inr Success)
        qed
      qed
    qed
  qed
qed

lemma answered_by_append:
  "answered_by V tr (xs @ ys) = (answered_by V tr xs \<and> answered_by V (tr @ xs) ys)"
  by (induction V tr xs rule: answered_by.induct) simp_all

text \<open>
  One round of \<open>authenticateWithRetry\<close>: either the attempt failed retryably with
  retries left, and the function continues after a pause with one retry less; or the
  function returns with the attempt as the last thing in the trace, and it returns a
  response exactly when the attempt verified.
\<close>

lemma authenticate_step:
  obtains (retry) a where "attempt_shape L c a" "retryable_failure a" "n > 0"
      "authenticateWithRetry L V c n tr
         = authenticateWithRetry L V c (n - 1) (tr @ a @ [Slept (retryBackoff c)])"
      "http_NewRequest_error L ''POST'' (baseURL c @ ''/challenge'') = None"
      "answered_by V tr a"
  | (final) a where "attempt_shape L c a"
      "snd (authenticateWithRetry L V c n tr) = tr @ a"
      "retryable_failure a \<Longrightarrow> n \<le> 0 \<and> isl (fst (authenticateWithRetry L V c n tr))"
      "(a = []) = (http_NewRequest_error L ''POST'' (baseURL c @ ''/challenge'') \<noteq> None)"
      "answered_by V tr a"
      "isl (fst (authenticateWithRetry L V c n tr)) = (\<not> attempt_verified L a)"
proof (cases rule: RequestChallenge_cases [of L V c tr])
  case (not_sent e)
  then have "authenticateWithRetry L V c n tr
      = (Inl (Errorf ''failed to request challenge: %w'' [] (Some e)), tr)"
    by (simp add: authenticateWithRetry.simps [of L V c n tr])
  then show ?thesis
    using not_sent(3) by (intro final [of "[]"]) (simp_all add: retryable_failure_def)
next
  case (failed e res)
  let ?a = "[Sent (challenge_request c) res]"
  have ans: "answered_by V tr ?a" by (simp add: failed(4))
  have rf: "retryable_failure ?a = isRetryable e"
    by (simp add: retryable_failure_def failed(2))
  show ?thesis
  proof (cases "n > 0 \<and> isRetryable e")
    case True
    with failed(1) have eq: "authenticateWithRetry L V c n tr
      = authenticateWithRetry L V c (n - 1) (tr @ ?a @ [Slept (retryBackoff c)])"
      by (simp add: authenticateWithRetry.simps [of L V c n tr])
    show ?thesis
    proof (rule retry [of ?a])
      show "attempt_shape L c ?a" by (rule failed(5))
      show "retryable_failure ?a" using True by (simp add: rf)
      show "n > 0" using True by simp
      show "authenticateWithRetry L V c n tr
        = authenticateWithRetry L V c (n - 1) (tr @ ?a @ [Slept (retryBackoff c)])"
        by (rule eq)
      show "http_NewRequest_error L ''POST'' (baseURL c @ ''/challenge'') = None"
        by (rule failed(3))
      show "answered_by V tr ?a" by (rule ans)
    qed
  next
    case False
    with failed(1) have eq: "authenticateWithRetry L V c n tr
      = (Inl (Errorf ''failed to request challenge: %w'' [] (Some e)), tr @ ?a)"
      by (auto simp add: authenticateWithRetry.simps [of L V c n tr])
    show ?thesis
    proof (rule final [of ?a])
      show "attempt_shape L c ?a" by (rule failed(5))
      show "snd (authenticateWithRetry L V c n tr) = tr @ ?a" by (simp add: eq)
      show "n \<le> 0 \<and> isl (fst (authenticateWithRetry L V c n tr))" if "retryable_failure ?a"
        using that False by (simp add: rf eq)
      show "(?a = []) = (http_NewRequest_error L ''POST'' (baseURL c @ ''/challenge'') \<noteq> None)"
        by (simp add: failed(3))
      show "answered_by V tr ?a" by (rule ans)
      show "isl (fst (authenticateWithRetry L V c n tr)) = (\<not> attempt_verified L ?a)"
        by (simp add: eq)
    qed
  qed
next
  case (ok ch body)
  note chal = ok
  let ?chal = "ChallengeResponse.Challenge ch"
  let ?a1 = "[Sent (challenge_request c) (Response 200 body)]"
  let ?tr1 = "tr @ ?a1"
  have nr1: "\<not> retryable_failure ?a1"
    by (simp add: retryable_failure_def retryable_result_def)
  have ans1: "answered_by V tr ?a1" by (simp add: chal(4))
  have stop: thesis
    if eq: "authenticateWithRetry L V c n tr = (Inl e, ?tr1)"
      and shape: "attempt_shape L c ?a1" for e
  proof (rule final [of ?a1])
    show "attempt_shape L c ?a1" by (rule shape)
    show "snd (authenticateWithRetry L V c n tr) = tr @ ?a1" by (simp add: eq)
    show "n \<le> 0 \<and> isl (fst (authenticateWithRetry L V c n tr))" if "retryable_failure ?a1"
      using that nr1 by simp
    show "(?a1 = []) = (http_NewRequest_error L ''POST'' (baseURL c @ ''/challenge'') \<noteq> None)"
      by (simp add: chal(3))
    show "answered_by V tr ?a1" by (rule ans1)
    show "isl (fst (authenticateWithRetry L V c n tr)) = (\<not> attempt_verified L ?a1)"
      by (simp add: eq)
  qed
  show ?thesis
  proof (cases "signChallenge L c ?chal")
    case (Inl e)
    with chal(1) have "authenticateWithRetry L V c n tr
      = (Inl (Errorf ''failed to sign challenge: %w'' [] (Some e)), ?tr1)"
      by (simp add: authenticateWithRetry.simps [of L V c n tr])
    moreover have "attempt_shape L c ?a1" by (simp add: chal(2) Inl)
    ultimately show ?thesis by (rule stop)
  next
    case (Inr sg)
    let ?vreq = "verify_request c ?chal sg"
    show ?thesis
    proof (cases rule: Client_VerifySignature_cases [of L V c ?chal sg ?tr1])
      case (not_sent e)
      with chal(1) Inr have "authenticateWithRetry L V c n tr
        = (Inl (Errorf ''failed to verify signature: %w'' [] (Some e)), ?tr1)"
        by (simp add: authenticateWithRetry.simps [of L V c n tr])
      moreover have "attempt_shape L c ?a1" by (simp add: chal(2) Inr not_sent(3))
      ultimately show ?thesis by (rule stop)
    next
      case (failed e res)
      let ?a = "[Sent (challenge_request c) (Response 200 body), Sent ?vreq res]"
      have shape: "attempt_shape L c ?a" by (simp add: chal(2) Inr failed(3))
      have ans: "answered_by V tr ?a" using failed(4) by (simp add: chal(4))
      have nv: "\<not> attempt_verified L ?a" by (simp add: failed(5))
      have rf: "retryable_failure ?a = isRetryable e"
        by (simp add: retryable_failure_def failed(2))
      show ?thesis
      proof (cases "n > 0 \<and> isRetryable e")
        case True
        with chal(1) Inr failed(1) have eq: "authenticateWithRetry L V c n tr
          = authenticateWithRetry L V c (n - 1) (tr @ ?a @ [Slept (retryBackoff c)])"
          by (simp add: authenticateWithRetry.simps [of L V c n tr])
        show ?thesis
        proof (rule retry [of ?a])
          show "attempt_shape L c ?a" by (rule shape)
          show "retryable_failure ?a" using True by (simp add: rf)
          show "n > 0" using True by simp
          show "authenticateWithRetry L V c n tr
            = authenticateWithRetry L V c (n - 1) (tr @ ?a @ [Slept (retryBackoff c)])"
            by (rule eq)
          show "http_NewRequest_error L ''POST'' (baseURL c @ ''/challenge'') = None"
            by (rule chal(3))
          show "answered_by V tr ?a" by (rule ans)
        qed
      next
        case False
        with chal(1) Inr failed(1) have eq: "authenticateWithRetry L V c n tr
          = (Inl (Errorf ''failed to verify signature: %w'' [] (Some e)), tr @ ?a)"
          by (auto simp add: authenticateWithRetry.simps [of L V c n tr])
        show ?thesis
        proof (rule final [of ?a])
          show "attempt_shape L c ?a" by (rule shape)
          show "snd (authenticateWithRetry L V c n tr) = tr @ ?a" by (simp add: eq)
          show "n \<le> 0 \<and> isl (fst (authenticateWithRetry L V c n tr))"
            if "retryable_failure ?a"
            using that False by (simp add: rf eq)
          show "(?a = []) = (http_NewRequest_error L ''POST'' (baseURL c @ ''/challenge'') \<noteq> None)"
            by (simp add: chal(3))
          show "answered_by V tr ?a" by (rule ans)
          show "isl (fst (authenticateWithRetry L V c n tr)) = (\<not> attempt_verified L ?a)"
            using nv by (simp add: eq)
        qed
      qed
    next
      case (ok vr res)
      let ?a = "[Sent (challenge_request c) (Response 200 body), Sent ?vreq res]"
      have shape: "attempt_shape L c ?a" by (simp add: chal(2) Inr ok(3))
      have ans: "answered_by V tr ?a" using ok(4) by (simp add: chal(4))
      have v: "attempt_verified L ?a" by (simp add: ok(5))
      have nrf: "\<not> retryable_failure ?a" by (simp add: retryable_failure_def ok(2))
      from chal(1) Inr ok(1) have eq: "authenticateWithRetry L V c n tr = (Inr vr, tr @ ?a)"
        by (simp add: authenticateWithRetry.simps [of L V c n tr])
      show ?thesis
      proof (rule final [of ?a])
        show "attempt_shape L c ?a" by (rule shape)
        show "snd (authenticateWithRetry L V c n tr) = tr @ ?a" by (simp add: eq)
        show "n \<le> 0 \<and> isl (fst (authenticateWithRetry L V c n tr))"
          if "retryable_failure ?a"
          using that nrf by simp
        show "(?a = []) = (http_NewRequest_error L ''POST'' (baseURL c @ ''/challenge'') \<noteq> None)"
          by (simp add: chal(3))
        show "answered_by V tr ?a" by (rule ans)
        show "isl (fst (authenticateWithRetry L V c n tr)) = (\<not> attempt_verified L ?a)"
          using v by (simp add: eq)
      qed
    qed
  qed
qed

lemma retry_shape:
  "\<exists>attempts. attempts \<noteq> []
     \<and> snd (authenticateWithRetry L V c n tr) = tr @ join_attempts (retryBackoff c) attempts
     \<and> answered_by V tr (join_attempts (retryBackoff c) attempts)
     \<and> length attempts \<le> nat n + 1
     \<and> (\<forall>a \<in> set (butlast attempts). retryable_failure a)
     \<and> (\<forall>a \<in> set attempts. attempt_shape L c a)
     \<and> (\<forall>a \<in> set attempts.
          (a = []) = (http_NewRequest_error L ''POST'' (baseURL c @ ''/challenge'') \<noteq> None))
     \<and> (retryable_failure (last attempts) \<longrightarrow>
          length attempts = nat n + 1 \<and> isl (fst (authenticateWithRetry L V c n tr)))
     \<and> isl (fst (authenticateWithRetry L V c n tr)) = (\<not> attempt_verified L (last attempts))"
proof (induction "nat n" arbitrary: n tr)
  case 0
  then have n: "n \<le> 0" by simp
  show ?case
  proof (cases rule: authenticate_step [of L c n V tr])
    case (retry a)
    with n show ?thesis by simp
  next
    case (final a)
    with n show ?thesis by (intro exI [of _ "[a]"]) simp
  qed
next
  case (Suc k)
  then have n: "n > 0" "k = nat (n - 1)" "nat n = Suc k" by simp_all
  show ?case
  proof (cases rule: authenticate_step [of L c n V tr])
    case (retry a)
    let ?tr' = "tr @ a @ [Slept (retryBackoff c)]"
    from Suc.hyps(1) [OF n(2), of ?tr']
    obtain attempts where at: "attempts \<noteq> []"
      "snd (authenticateWithRetry L V c (n - 1) ?tr')
         = ?tr' @ join_attempts (retryBackoff c) attempts"
      "answered_by V ?tr' (join_attempts (retryBackoff c) attempts)"
      "length attempts \<le> nat (n - 1) + 1"
      "\<forall>a \<in> set (butlast attempts). retryable_failure a"
      "\<forall>a \<in> set attempts. attempt_shape L c a"
      "\<forall>a \<in> set attempts.
          (a = []) = (http_NewRequest_error L ''POST'' (baseURL c @ ''/challenge'') \<noteq> None)"
      "retryable_failure (last attempts) \<longrightarrow>
          length attempts = nat (n - 1) + 1
          \<and> isl (fst (authenticateWithRetry L V c (n - 1) ?tr'))"
      "isl (fst (authenticateWithRetry L V c (n - 1) ?tr'))
         = (\<not> attempt_verified L (last attempts))"
      by blast
    from at(1) obtain a' rest where ar: "attempts = a' # rest" by (cases attempts) auto
    show ?thesis
    proof (intro exI [of _ "a # attempts"] conjI)
      show "a # attempts \<noteq> []" by simp
      show "snd (authenticateWithRetry L V c n tr)
          = tr @ join_attempts (retryBackoff c) (a # attempts)"
        using retry(4) at(2) ar by simp
      show "answered_by V tr (join_attempts (retryBackoff c) (a # attempts))"
        using retry(6) at(3) ar by (simp add: answered_by_append)
      show "length (a # attempts) \<le> nat n + 1" using at(4) n by simp
      show "\<forall>x \<in> set (butlast (a # attempts)). retryable_failure x"
        using at(1,5) retry(2) by simp
      show "\<forall>x \<in> set (a # attempts). attempt_shape L c x"
        using at(6) retry(1) by simp
      show "\<forall>x \<in> set (a # attempts).
          (x = []) = (http_NewRequest_error L ''POST'' (baseURL c @ ''/challenge'') \<noteq> None)"
        using at(7) retry(2,5) by (auto simp add: retryable_failure_def)
      show "retryable_failure (last (a # attempts)) \<longrightarrow>
          length (a # attempts) = nat n + 1 \<and> isl (fst (authenticateWithRetry L V c n tr))"
        using at(1,8) retry(4) n by simp
      show "isl (fst (authenticateWithRetry L V c n tr))
          = (\<not> attempt_verified L (last (a # attempts)))"
        using at(1,9) retry(4) by simp
    qed
  next
    case (final a)
    with n show ?thesis by (intro exI [of _ "[a]"]) auto
  qed
qed

text \<open>
  In a trace made of well-shaped attempts, the events that are not requests are exactly
  the joining pauses: one less than there are attempts, each of the given length.
\<close>

lemma attempt_shape_all_sent:
  "attempt_shape L c a \<Longrightarrow> \<forall>e \<in> set a. is_Sent e"
  by (induction L c a rule: attempt_shape.induct) (simp_all add: is_Sent_def)

lemma join_attempts_pauses:
  assumes "attempts \<noteq> []" and "\<forall>a \<in> set attempts. attempt_shape L c a"
  shows "length (filter (\<lambda>e. \<not> is_Sent e) (join_attempts b attempts)) = length attempts - 1
     \<and> (\<forall>e \<in> set (join_attempts b attempts). \<not> is_Sent e \<longrightarrow> e = Slept b)"
  using assms
proof (induction b attempts rule: join_attempts.induct)
  case (1 b)
  then show ?case by simp
next
  case (2 b a)
  with attempt_shape_all_sent [of L c a] show ?case by simp
next
  case (3 b a a' rest)
  from 3 attempt_shape_all_sent [of L c a] show ?case
    by (auto simp add: is_Sent_def)
qed

text \<open>The definitions to unfold to run the client against a stand-in verifier.\<close>

lemmas run_defs =
  Authenticate_def authenticateWithRetry.simps SetRetry_def
  RequestChallenge_def Client_VerifySignature_def client5_def mock_lib_def
  verifier_503_twice_def verifier_rejects_def verifier_read_error_def answer_ok_def
  is_Sent_def HasSuffix_def
  HasPrefix_def after_prefix_def handleHTTPError_def NewHTTPError_def isRetryable_def
  challenge_request_def verify_request_def signChallenge_def SignChallenge_def
  mock_crypto_def mock_key_def mock_signature_def eval_nat_numeral Let_def

lemma scenario_two_retries:
  "Authenticate mock_lib verifier_503_twice (SetRetry client5 2 7) []
   = (Inr \<lparr>VerifyResponse.Success = True, Token = ''test-jwt-token'',
            SecretData = [''API_KEY'' \<mapsto> ''a''],
            RepoList = [], VerifyResponse.Error = []\<rparr>,
      [Sent (challenge_request client5) (Response 503 ''Service Unavailable''),
       Slept 7,
       Sent (challenge_request client5) (Response 503 ''Service Unavailable''),
       Slept 7,
       Sent (challenge_request client5) (Response 200 ''challenge:test-challenge-12345''),
       Sent (verify_request client5 ''test-challenge-12345'' mock_signature)
         (Response 200 ''ok:test-jwt-token'')])"
  by (simp add: run_defs fun_eq_iff)

lemma scenario_one_retry:
  "Authenticate mock_lib verifier_503_twice (SetRetry client5 1 7) []
   = (Inl (Errorf ''failed to request challenge: %w'' []
        (Some (HTTPError 503 ''Service Unavailable'' None))),
      [Sent (challenge_request client5) (Response 503 ''Service Unavailable''),
       Slept 7,
       Sent (challenge_request client5) (Response 503 ''Service Unavailable'')])"
  by (simp add: run_defs)

lemma scenario_read_error_in_chain:
  "Authenticate mock_lib
      (verifier_read_error (Errorf ''%w: connection reset'' [] (Some ErrNetworkError)))
      (SetRetry client5 1 7) []
   = (Inr \<lparr>VerifyResponse.Success = True, Token = ''test-jwt-token'',
            SecretData = [''API_KEY'' \<mapsto> ''a''],
            RepoList = [], VerifyResponse.Error = []\<rparr>,
      [Sent (challenge_request client5)
         (ReadError 200 (Errorf ''%w: connection reset'' [] (Some ErrNetworkError))),
       Slept 7,
       Sent (challenge_request client5) (Response 200 ''challenge:test-challenge-12345''),
       Sent (verify_request client5 ''test-challenge-12345'' mock_signature)
         (Response 200 ''ok:test-jwt-token'')])"
  by (simp add: run_defs fun_eq_iff)

lemma scenario_read_error_plain:
  "Authenticate mock_lib (verifier_read_error (LibraryError ''unexpected EOF''))
      (SetRetry client5 1 7) []
   = (Inl (Errorf ''failed to request challenge: %w'' []
        (Some (Errorf ''failed to read response: %w'' []
           (Some (LibraryError ''unexpected EOF''))))),
      [Sent (challenge_request client5) (ReadError 200 (LibraryError ''unexpected EOF''))])"
  by (simp add: run_defs)

text \<open>
  Claim C1. Whatever the verifier answers and whatever the retry count, the trace of one
  \<open>Authenticate\<close> is a list of attempts joined by pauses of the configured backoff, and
  nothing else; every result in it is the verifier's answer to the request before it.
  There is one attempt more than pauses, so at most as many pauses as the retry count
  allows (none when the count is zero or negative). Every attempt but the last failed
  retryably: its last request, the challenge request or the verify request, got a
  transport error, or a status from 500 to 599, or 429, or a body read error with the
  network error or such an \<open>HTTPError\<close> in its chain. Every attempt is a fresh and
  whole run of the three steps: it starts with the challenge request; when that is
  answered with a challenge that the client can sign, the verify request follows (unless
  it cannot be built), and it carries the challenge that this attempt's own challenge
  request received, with the client's signature of it. An attempt is empty only when the
  challenge request cannot be built at all. The run stops on a retryable failure only with
  the retry count used up, and then with an error; and it returns a response exactly when
  its last attempt verified. In particular, against a verifier that answers 503 twice and
  then well, two retries succeed with exactly three challenge requests sent, and one retry
  fails after two requests in all.
\<close>

theorem authenticate_retry_discipline:
  "(\<exists>attempts. attempts \<noteq> []
     \<and> snd (Authenticate L V c tr) = tr @ join_attempts (retryBackoff c) attempts
     \<and> answered_by V tr (join_attempts (retryBackoff c) attempts)
     \<and> length attempts \<le> nat (maxRetries c) + 1
     \<and> (\<forall>a \<in> set (butlast attempts). retryable_failure a)
     \<and> (\<forall>a \<in> set attempts. attempt_shape L c a)
     \<and> (\<forall>a \<in> set attempts.
          (a = []) = (http_NewRequest_error L ''POST'' (baseURL c @ ''/challenge'') \<noteq> None))
     \<and> (retryable_failure (last attempts) \<longrightarrow>
          length attempts = nat (maxRetries c) + 1 \<and> isl (fst (Authenticate L V c tr)))
     \<and> isl (fst (Authenticate L V c tr)) = (\<not> attempt_verified L (last attempts)))
 \<and> (\<exists>r tr2. Authenticate mock_lib verifier_503_twice (SetRetry client5 2 7) [] = (Inr r, tr2)
       \<and> length (filter (\<lambda>req. req = challenge_request client5) (sent_requests tr2)) = 3)
 \<and> (\<exists>e tr1. Authenticate mock_lib verifier_503_twice (SetRetry client5 1 7) [] = (Inl e, tr1)
       \<and> length (sent_requests tr1) = 2)"
proof (intro conjI)
  show "\<exists>attempts. attempts \<noteq> []
     \<and> snd (Authenticate L V c tr) = tr @ join_attempts (retryBackoff c) attempts
     \<and> answered_by V tr (join_attempts (retryBackoff c) attempts)
     \<and> length attempts \<le> nat (maxRetries c) + 1
     \<and> (\<forall>a \<in> set (butlast attempts). retryable_failure a)
     \<and> (\<forall>a \<in> set attempts. attempt_shape L c a)
     \<and> (\<forall>a \<in> set attempts.
          (a = []) = (http_NewRequest_error L ''POST'' (baseURL c @ ''/challenge'') \<noteq> None))
     \<and> (retryable_failure (last attempts) \<longrightarrow>
          length attempts = nat (maxRetries c) + 1 \<and> isl (fst (Authenticate L V c tr)))
     \<and> isl (fst (Authenticate L V c tr)) = (\<not> attempt_verified L (last attempts))"
    unfolding Authenticate_def by (rule retry_shape)
  show "\<exists>r tr2. Authenticate mock_lib verifier_503_twice (SetRetry client5 2 7) [] = (Inr r, tr2)
       \<and> length (filter (\<lambda>req. req = challenge_request client5) (sent_requests tr2)) = 3"
    unfolding scenario_two_retries
    by (simp add: challenge_request_def verify_request_def)
  show "\<exists>e tr1. Authenticate mock_lib verifier_503_twice (SetRetry client5 1 7) [] = (Inl e, tr1)
       \<and> length (sent_requests tr1) = 2"
    unfolding scenario_one_retry by simp
qed

theorem authenticate_retry_discipline_witness:
  "snd (Authenticate mock_lib verifier_503_twice (SetRetry client5 1 7) [])
     = [] @ join_attempts (retryBackoff (SetRetry client5 1 7))
         [[Sent (challenge_request client5) (Response 503 ''Service Unavailable'')],
          [Sent (challenge_request client5) (Response 503 ''Service Unavailable'')]]
 \<and> answered_by verifier_503_twice []
       (join_attempts (retryBackoff (SetRetry client5 1 7))
         [[Sent (challenge_request client5) (Response 503 ''Service Unavailable'')],
          [Sent (challenge_request client5) (Response 503 ''Service Unavailable'')]])
 \<and> length [[Sent (challenge_request client5) (Response 503 ''Service Unavailable'')],
            [Sent (challenge_request client5) (Response 503 ''Service Unavailable'')]]
     = nat (maxRetries (SetRetry client5 1 7)) + 1
 \<and> retryable_failure [Sent (challenge_request client5) (Response 503 ''Service Unavailable'')]
 \<and> attempt_shape mock_lib (SetRetry client5 1 7)
       [Sent (challenge_request client5) (Response 503 ''Service Unavailable'')]
 \<and> http_NewRequest_error mock_lib ''POST'' (baseURL (SetRetry client5 1 7) @ ''/challenge'')
     = None
 \<and> isl (fst (Authenticate mock_lib verifier_503_twice (SetRetry client5 1 7) []))
 \<and> \<not> attempt_verified mock_lib
       [Sent (challenge_request client5) (Response 503 ''Service Unavailable'')]
 \<and> snd (Authenticate mock_lib verifier_503_twice (SetRetry client5 2 7) [])
     = [] @ join_attempts (retryBackoff (SetRetry client5 2 7))
         [[Sent (challenge_request client5) (Response 503 ''Service Unavailable'')],
          [Sent (challenge_request client5) (Response 503 ''Service Unavailable'')],
          [Sent (challenge_request client5) (Response 200 ''challenge:test-challenge-12345''),
           Sent (verify_request client5 ''test-challenge-12345'' mock_signature)
             (Response 200 ''ok:test-jwt-token'')]]
 \<and> attempt_shape mock_lib (SetRetry client5 2 7)
       [Sent (challenge_request client5) (Response 200 ''challenge:test-challenge-12345''),
        Sent (verify_request client5 ''test-challenge-12345'' mock_signature)
          (Response 200 ''ok:test-jwt-token'')]
 \<and> \<not> retryable_failure
       [Sent (challenge_request client5) (Response 200 ''challenge:test-challenge-12345''),
        Sent (verify_request client5 ''test-challenge-12345'' mock_signature)
          (Response 200 ''ok:test-jwt-token'')]
 \<and> attempt_verified mock_lib
       [Sent (challenge_request client5) (Response 200 ''challenge:test-challenge-12345''),
        Sent (verify_request client5 ''test-challenge-12345'' mock_signature)
          (Response 200 ''ok:test-jwt-token'')]
 \<and> \<not> isl (fst (Authenticate mock_lib verifier_503_twice (SetRetry client5 2 7) []))"
proof -
  have shape: "attempt_shape mock_lib (SetRetry client5 1 7)
       [Sent (challenge_request client5) (Response 503 ''Service Unavailable'')]"
    "attempt_shape mock_lib (SetRetry client5 2 7)
       [Sent (challenge_request client5) (Response 200 ''challenge:test-challenge-12345''),
        Sent (verify_request client5 ''test-challenge-12345'' mock_signature)
          (Response 200 ''ok:test-jwt-token'')]"
    by (simp_all add: run_defs)
  have fail: "retryable_failure
       [Sent (challenge_request client5) (Response 503 ''Service Unavailable'')]"
    "\<not> retryable_failure
       [Sent (challenge_request client5) (Response 200 ''challenge:test-challenge-12345''),
        Sent (verify_request client5 ''test-challenge-12345'' mock_signature)
          (Response 200 ''ok:test-jwt-token'')]"
    by (simp_all add: retryable_failure_def retryable_result_def)
  have ver: "\<not> attempt_verified mock_lib
       [Sent (challenge_request client5) (Response 503 ''Service Unavailable'')]"
    "attempt_verified mock_lib
       [Sent (challenge_request client5) (Response 200 ''challenge:test-challenge-12345''),
        Sent (verify_request client5 ''test-challenge-12345'' mock_signature)
          (Response 200 ''ok:test-jwt-token'')]"
    by (simp_all add: verify_succeeded_def mock_lib_def after_prefix_def HasPrefix_def)
  have url: "http_NewRequest_error mock_lib ''POST''
      (baseURL (SetRetry client5 1 7) @ ''/challenge'') = None"
    by (simp add: mock_lib_def SetRetry_def client5_def)
  have rb: "retryBackoff (SetRetry client5 k 7) = 7" for k
    by (simp add: SetRetry_def)
  have runs: "snd (Authenticate mock_lib verifier_503_twice (SetRetry client5 1 7) [])
     = [] @ join_attempts (retryBackoff (SetRetry client5 1 7))
         [[Sent (challenge_request client5) (Response 503 ''Service Unavailable'')],
          [Sent (challenge_request client5) (Response 503 ''Service Unavailable'')]]"
    "isl (fst (Authenticate mock_lib verifier_503_twice (SetRetry client5 1 7) []))"
    "snd (Authenticate mock_lib verifier_503_twice (SetRetry client5 2 7) [])
     = [] @ join_attempts (retryBackoff (SetRetry client5 2 7))
         [[Sent (challenge_request client5) (Response 503 ''Service Unavailable'')],
          [Sent (challenge_request client5) (Response 503 ''Service Unavailable'')],
          [Sent (challenge_request client5) (Response 200 ''challenge:test-challenge-12345''),
           Sent (verify_request client5 ''test-challenge-12345'' mock_signature)
             (Response 200 ''ok:test-jwt-token'')]]"
    "\<not> isl (fst (Authenticate mock_lib verifier_503_twice (SetRetry client5 2 7) []))"
    by (simp_all add: scenario_one_retry scenario_two_retries rb)
  have ans: "answered_by verifier_503_twice []
       (join_attempts (retryBackoff (SetRetry client5 1 7))
         [[Sent (challenge_request client5) (Response 503 ''Service Unavailable'')],
          [Sent (challenge_request client5) (Response 503 ''Service Unavailable'')]])"
    by (simp add: rb verifier_503_twice_def is_Sent_def)
  have len: "length [[Sent (challenge_request client5) (Response 503 ''Service Unavailable'')],
            [Sent (challenge_request client5) (Response 503 ''Service Unavailable'')]]
     = nat (maxRetries (SetRetry client5 1 7)) + 1"
    by (simp add: SetRetry_def)
  from authenticate_retry_discipline [of mock_lib verifier_503_twice "SetRetry client5 1 7" "[]"]
    shape fail ver url runs ans len
  show ?thesis by blast
qed

text \<open>
  Claim C4, as amended. Take any round of authentication (any number of retries left, any
  trace so far) in which the challenge step and the signing succeed and the verify request
  can be built. If the verify endpoint answers with status 200 and a body that decodes to
  a response whose \<open>success\<close> is false, the call returns at once with an error that
  wraps \<open>ErrUnauthorized\<close> and carries the server's error string; the trace ends with
  the verify request, so no pause follows and no retry is used. The same holds when the
  endpoint answers with status 401 and a body that decodes to an error response.
  \<open>Authenticate\<close> is the round with the configured retry count and the empty history.
\<close>

theorem authenticate_unauthorized_no_retry:
  assumes "RequestChallenge L V c tr = (Inr ch, tr1)"
    and "signChallenge L c (ChallengeResponse.Challenge ch) = Inr sg"
    and "http_NewRequest_error L ''POST'' (baseURL c @ ''/verify'') = None"
    and "V tr1 (verify_request c (ChallengeResponse.Challenge ch) sg) = Response status body"
  shows "(status = 200 \<and> json_Unmarshal_VerifyResponse L body = Inr vr
            \<and> \<not> VerifyResponse.Success vr \<longrightarrow>
          authenticateWithRetry L V c n tr
            = (Inl (Errorf ''failed to verify signature: %w'' []
                 (Some (Errorf ''%w: %s'' [ArgS (VerifyResponse.Error vr)]
                    (Some ErrUnauthorized)))),
               tr1 @ [Sent (verify_request c (ChallengeResponse.Challenge ch) sg)
                        (Response status body)])
        \<and> errors_Is (Errorf ''failed to verify signature: %w'' []
                 (Some (Errorf ''%w: %s'' [ArgS (VerifyResponse.Error vr)]
                    (Some ErrUnauthorized)))) ErrUnauthorized)
     \<and> (status = 401 \<and> json_Unmarshal_ErrorResponse L body = Inr er \<longrightarrow>
          authenticateWithRetry L V c n tr
            = (Inl (Errorf ''failed to verify signature: %w'' []
                 (Some (HTTPError 401 (ErrorResponse.Error er) (Some ErrUnauthorized)))),
               tr1 @ [Sent (verify_request c (ChallengeResponse.Challenge ch) sg)
                        (Response status body)])
        \<and> errors_Is (Errorf ''failed to verify signature: %w'' []
                 (Some (HTTPError 401 (ErrorResponse.Error er) (Some ErrUnauthorized))))
              ErrUnauthorized)"
proof -
  let ?req = "verify_request c (ChallengeResponse.Challenge ch) sg"
  have snd: "snd (Client_VerifySignature L V c (ChallengeResponse.Challenge ch) sg tr1)
      = tr1 @ [Sent ?req (Response status body)]"
    using Client_VerifySignature_sent [OF assms(3), of V "ChallengeResponse.Challenge ch" sg tr1]
      assms(4) by simp
  have ok: "authenticateWithRetry L V c n tr
      = (Inl (Errorf ''failed to verify signature: %w'' [] (Some e)),
         tr1 @ [Sent ?req (Response status body)])"
    if "fst (Client_VerifySignature L V c (ChallengeResponse.Challenge ch) sg tr1) = Inl e"
      and "\<not> isRetryable e" for e
  proof -
    from that(1) snd
    have "Client_VerifySignature L V c (ChallengeResponse.Challenge ch) sg tr1
        = (Inl e, tr1 @ [Sent ?req (Response status body)])"
      by (simp add: prod_eq_iff)
    with assms(1,2) that(2) show ?thesis
      by (simp add: authenticateWithRetry.simps [of L V c n tr])
  qed
  have a: "authenticateWithRetry L V c n tr
            = (Inl (Errorf ''failed to verify signature: %w'' []
                 (Some (Errorf ''%w: %s'' [ArgS (VerifyResponse.Error vr)]
                    (Some ErrUnauthorized)))),
               tr1 @ [Sent ?req (Response status body)])"
    if "status = 200" "json_Unmarshal_VerifyResponse L body = Inr vr"
      "\<not> VerifyResponse.Success vr"
  proof (rule ok)
    from assms(4) that(1) have "V tr1 ?req = Response 200 body" by simp
    from Client_VerifySignature_200 [where V = V and tr = tr1 and c = c and sg = sg
        and ch = "ChallengeResponse.Challenge ch", OF assms(3) this that(2)] that(3)
    show "fst (Client_VerifySignature L V c (ChallengeResponse.Challenge ch) sg tr1)
        = Inl (Errorf ''%w: %s'' [ArgS (VerifyResponse.Error vr)] (Some ErrUnauthorized))"
      by simp
    show "\<not> isRetryable (Errorf ''%w: %s'' [ArgS (VerifyResponse.Error vr)]
        (Some ErrUnauthorized))"
      by simp
  qed
  have b: "authenticateWithRetry L V c n tr
            = (Inl (Errorf ''failed to verify signature: %w'' []
                 (Some (HTTPError 401 (ErrorResponse.Error er) (Some ErrUnauthorized)))),
               tr1 @ [Sent ?req (Response status body)])"
    if "status = 401" "json_Unmarshal_ErrorResponse L body = Inr er"
  proof (rule ok)
    from assms(3,4) that
    show "fst (Client_VerifySignature L V c (ChallengeResponse.Challenge ch) sg tr1)
        = Inl (HTTPError 401 (ErrorResponse.Error er) (Some ErrUnauthorized))"
      by (simp add: Client_VerifySignature_def verify_request_def handleHTTPError_def
          NewHTTPError_def Let_def)
    show "\<not> isRetryable (HTTPError 401 (ErrorResponse.Error er) (Some ErrUnauthorized))"
      by (simp add: isRetryable_def)
  qed
  from a b show ?thesis by simp
qed

theorem authenticate_unauthorized_no_retry_witness:
  "Authenticate mock_lib (verifier_rejects 200) (SetRetry client5 3 7) []
    = (Inl (Errorf ''failed to verify signature: %w'' []
         (Some (Errorf ''%w: %s'' [ArgS ''Invalid signature''] (Some ErrUnauthorized)))),
       [Sent (challenge_request client5) (Response 200 ''challenge:test-challenge-12345''),
        Sent (verify_request client5 ''test-challenge-12345'' mock_signature)
          (Response 200 ''fail:Invalid signature'')])
 \<and> Authenticate mock_lib (verifier_rejects 401) (SetRetry client5 3 7) []
    = (Inl (Errorf ''failed to verify signature: %w'' []
         (Some (HTTPError 401 ''Invalid signature'' (Some ErrUnauthorized)))),
       [Sent (challenge_request client5) (Response 200 ''challenge:test-challenge-12345''),
        Sent (verify_request client5 ''test-challenge-12345'' mock_signature)
          (Response 401 ''fail:Invalid signature'')])"
proof -
  let ?c = "SetRetry client5 3 7"
  let ?ch = "\<lparr>ChallengeResponse.Challenge = ''test-challenge-12345'', ExpiresAt = 1700000000\<rparr>"
  let ?tr1 = "[Sent (challenge_request client5)
                 (Response 200 ''challenge:test-challenge-12345'')]"
  have rc: "RequestChallenge mock_lib (verifier_rejects s) ?c [] = (Inr ?ch, ?tr1)" for s
    by (simp add: run_defs)
  have sg: "signChallenge mock_lib ?c (ChallengeResponse.Challenge ?ch) = Inr mock_signature"
    by (simp add: run_defs)
  have nr: "http_NewRequest_error mock_lib ''POST'' (baseURL ?c @ ''/verify'') = None"
    by (simp add: run_defs)
  have v: "verifier_rejects s ?tr1
      (verify_request ?c (ChallengeResponse.Challenge ?ch) mock_signature)
      = Response s ''fail:Invalid signature''" for s
    by (simp add: run_defs)
  have j: "json_Unmarshal_VerifyResponse mock_lib ''fail:Invalid signature''
      = Inr \<lparr>VerifyResponse.Success = False, Token = [], SecretData = Map.empty,
             RepoList = [], VerifyResponse.Error = ''Invalid signature''\<rparr>"
    "json_Unmarshal_ErrorResponse mock_lib ''fail:Invalid signature''
      = Inr \<lparr>ErrorResponse.Error = ''Invalid signature'', ErrorResponse.Success = False\<rparr>"
    by (simp_all add: run_defs)
  have r: "verify_request ?c = verify_request client5"
    by (simp add: verify_request_def SetRetry_def fun_eq_iff)
  from authenticate_unauthorized_no_retry [where status = 200 and n = 3 and vr =
      "\<lparr>VerifyResponse.Success = False, Token = [], SecretData = Map.empty,
             RepoList = [], VerifyResponse.Error = ''Invalid signature''\<rparr>",
      OF rc sg nr v] j(1)
  have 1: "authenticateWithRetry mock_lib (verifier_rejects 200) ?c 3 []
    = (Inl (Errorf ''failed to verify signature: %w'' []
         (Some (Errorf ''%w: %s'' [ArgS ''Invalid signature''] (Some ErrUnauthorized)))),
       ?tr1 @ [Sent (verify_request client5 ''test-challenge-12345'' mock_signature)
          (Response 200 ''fail:Invalid signature'')])"
    by (simp add: r)
  from authenticate_unauthorized_no_retry [where status = 401 and n = 3 and er =
      "\<lparr>ErrorResponse.Error = ''Invalid signature'', ErrorResponse.Success = False\<rparr>",
      OF rc sg nr v] j(2)
  have 2: "authenticateWithRetry mock_lib (verifier_rejects 401) ?c 3 []
    = (Inl (Errorf ''failed to verify signature: %w'' []
         (Some (HTTPError 401 ''Invalid signature'' (Some ErrUnauthorized)))),
       ?tr1 @ [Sent (verify_request client5 ''test-challenge-12345'' mock_signature)
          (Response 401 ''fail:Invalid signature'')])"
    by (simp add: r)
  from 1 2 show ?thesis by (simp add: Authenticate_def SetRetry_def)
qed

text \<open>
  The claim as written speaks of any answer whose body has \<open>success\<close> false. When such
  a body comes with status 503, the client with one retry left pauses and runs a second
  attempt, and the error it returns in the end does not wrap \<open>ErrUnauthorized\<close>.
\<close>

theorem authenticate_rejected_with_503_counterexample:
  "json_Unmarshal_VerifyResponse mock_lib ''fail:Invalid signature''
      = Inr \<lparr>VerifyResponse.Success = False, Token = [], SecretData = Map.empty,
             RepoList = [], VerifyResponse.Error = ''Invalid signature''\<rparr>
 \<and> Authenticate mock_lib (verifier_rejects 503) (SetRetry client5 1 7) []
    = (Inl (Errorf ''failed to verify signature: %w'' []
         (Some (HTTPError 503 ''Invalid signature''
            (Some (Errorf ''HTTP error %d'' [ArgD 503] None))))),
       [Sent (challenge_request client5) (Response 200 ''challenge:test-challenge-12345''),
        Sent (verify_request client5 ''test-challenge-12345'' mock_signature)
          (Response 503 ''fail:Invalid signature''),
        Slept 7,
        Sent (challenge_request client5) (Response 200 ''challenge:test-challenge-12345''),
        Sent (verify_request client5 ''test-challenge-12345'' mock_signature)
          (Response 503 ''fail:Invalid signature'')])
 \<and> \<not> errors_Is (Errorf ''failed to verify signature: %w'' []
         (Some (HTTPError 503 ''Invalid signature''
            (Some (Errorf ''HTTP error %d'' [ArgD 503] None))))) ErrUnauthorized"
  by (simp add: run_defs)

text \<open>
  Every verify request is the one built from the client and the two arguments, and its
  body never asks for the repository list; and the flag of the configuration has no
  influence on the client that \<open>NewClient\<close> makes.
\<close>

lemma Client_VerifySignature_request:
  "snd (Client_VerifySignature L V c ch sg tr) = tr
   \<or> (\<exists>res. snd (Client_VerifySignature L V c ch sg tr) = tr @ [Sent (verify_request c ch sg) res])"
proof (cases "http_NewRequest_error L ''POST'' (baseURL c @ ''/verify'')")
  case None
  then show ?thesis by (simp add: Client_VerifySignature_sent)
next
  case (Some err)
  then show ?thesis by (simp add: Client_VerifySignature_not_sent)
qed

lemma verify_request_body:
  "req_body (verify_request c ch sg)
     = JSON_VerifyRequest
         \<lparr>VerifyRequest.ClientID = clientID c, VerifyRequest.Challenge = ch,
          Signature = sg, VerifyRequest.RepoUrl = repoUrl c,
          VerifyRequest.GrpcEndpoint = grpcEndpoint c,
          VerifyRequest.IncludeRepoList = False, VerifyRequest.TunnelUrl = []\<rparr>"
  by (simp add: verify_request_def)

lemma NewClient_drops_IncludeRepoList:
  "fst (NewClient (config\<lparr>ClientConfig.IncludeRepoList := flag\<rparr>) h) = fst (NewClient config h)"
  by (simp add: NewClient_def Let_def split: option.split)

text \<open>
  Claim C5 says that the verify request carries the configured flag that asks for the
  repository list. The code at a configuration with \<open>IncludeRepoList\<close> set: the client
  that \<open>NewClient\<close> makes sends a verify request with the client identifier, the
  challenge, the signature, the repository URL and the gRPC endpoint of the configuration,
  and with \<open>IncludeRepoList\<close> false.
\<close>

theorem verify_request_omits_include_repo_list:
  "ClientConfig.IncludeRepoList config5 = True
 \<and> fst (NewClient config5 heap5) = Inr client5
 \<and> snd (Client_VerifySignature mock_lib verifier_ok client5 ''test-challenge-12345''
        mock_signature [])
    = [Sent \<lparr>req_method = ''POST'', req_url = ''http://auth.example/verify'',
              req_header = [(''Content-Type'', ''application/json'')],
              req_body = JSON_VerifyRequest
                \<lparr>VerifyRequest.ClientID = ''test-client'',
                 VerifyRequest.Challenge = ''test-challenge-12345'',
                 Signature = mock_signature,
                 VerifyRequest.RepoUrl = ''https://github.com/o/r'',
                 VerifyRequest.GrpcEndpoint = ''grpc.example:443'',
                 VerifyRequest.IncludeRepoList = False,
                 VerifyRequest.TunnelUrl = []\<rparr>\<rparr>
         (Response 200 ''ok:test-jwt-token'')]"
  by (simp add: config5_def heap5_def NewClient_def TrimSuffix_def Second_def run_defs
      verifier_ok_def)

end
